theory Spec2Isabelle
  imports Main "HOL-Library.Word"
begin

section \<open>Time, durations and errors\<close>

text \<open>
  Go's \<^verbatim>\<open>time.Duration\<close> is a signed 64-bit count of nanoseconds; its arithmetic wraps
  around. A \<^verbatim>\<open>time.Time\<close> is modelled as an unbounded count of nanoseconds since the
  Unix epoch: \<^verbatim>\<open>Time.Add\<close> moves the instant by the signed value of the duration
  (its saturation lies hundreds of billions of years away from any clock reading).
  Go's \<^verbatim>\<open>int\<close>, the type of \<^verbatim>\<open>tokenResponse.ExpiresIn\<close>, is taken as 64 bits wide,
  as on amd64 and arm64. Strings are byte strings, as in Go: \<^verbatim>\<open>len\<close> is \<open>length\<close>.
\<close>

type_synonym duration = "64 word"
type_synonym time = int

definition Second :: duration where
  "Second = 1000000000"

definition Minute :: duration where
  "Minute = 60 * Second"

definition Hour :: duration where
  "Hour = 60 * Minute"

definition Add :: "time \<Rightarrow> duration \<Rightarrow> time" where
  "Add t d = t + sint d"

definition Before :: "time \<Rightarrow> time \<Rightarrow> bool" where
  "Before t u = (t < u)"

text \<open>The zero \<^verbatim>\<open>time.Time\<close>: January 1 of year 1, 00:00 UTC.\<close>

definition zeroTime :: time where
  "zeroTime = - 62135596800000000000"

text \<open>The public error value of \<^verbatim>\<open>types.go\<close>.\<close>

record ErrorSource =
  Parameter :: string
  Example :: string

record Error =
  Status :: string
  Code :: string
  Title :: string
  Detail :: string
  Source :: "ErrorSource option"

text \<open>
  Every error the library returns, one constructor for each \<^verbatim>\<open>fmt.Errorf\<close> message
  (the argument is the wrapped error or the formatted value) and one for \<^verbatim>\<open>*Error\<close>.
\<close>

datatype error =
    ErrMarshalTokenRequest string    \<comment> \<open>failed to marshal token request: %w\<close>
  | ErrCreateTokenRequest string     \<comment> \<open>failed to create token request: %w\<close>
  | ErrTokenRequestFailed string     \<comment> \<open>token request failed: %w\<close>
  | ErrTokenStatus int               \<comment> \<open>token request failed with status %d\<close>
  | ErrDecodeTokenResponse string    \<comment> \<open>failed to decode token response: %w\<close>
  | ErrEmptyAccessToken              \<comment> \<open>received empty access token\<close>
  | ErrGetAccessToken error          \<comment> \<open>failed to get access token: %w\<close>
  | ErrAddressNil                    \<comment> \<open>address cannot be nil\<close>
  | ErrStreetAddressRequired         \<comment> \<open>street address is required\<close>
  | ErrStateRequired                 \<comment> \<open>2 letter state abbreviation is required\<close>
  | ErrTransport string              \<comment> \<open>a failure of the HTTP transport\<close>
  | ErrRequestFailed error           \<comment> \<open>USPS API request failed: %w\<close>
  | ErrUnexpectedStatus int          \<comment> \<open>unexpected status code: %d\<close>
  | ErrEmptyResponse                 \<comment> \<open>unexpected empty response\<close>
  | ErrUSPS Error                    \<comment> \<open>a translated provider error\<close>

section \<open>The token manager (token.go)\<close>

text \<open>
  The mutable fields of \<^verbatim>\<open>tokenManager\<close>. Its \<^verbatim>\<open>httpClient\<close> is the environment's
  \<open>httpClient_Do\<close> below; the operations on its lock \<^verbatim>\<open>mu\<close> are events of the trace.
\<close>

record tokenManager =
  clientID :: string
  clientSecret :: string
  tokenURL :: string
  accessToken :: string
  expiresAt :: time
  refreshBuffer :: duration

record tokenResponse =
  AccessToken :: string
  TokenType :: string
  ExpiresIn :: "64 word"

record request =
  Method :: string
  URL :: string
  Body :: string
  Header :: "(string \<times> string) list"

text \<open>
  The answer of the token endpoint: its status code and what the JSON decoder makes of
  its body (\<open>Inl\<close> the decoder's error; a field the body omits has its zero value).
\<close>

record response =
  StatusCode :: int
  Decoded :: "string + tokenResponse"

section \<open>The data model (types.go and the provider's schema)\<close>

record Address =
  Firm :: string
  StreetAddress :: string
  StreetAddressAbbreviation :: string
  SecondaryAddress :: string
  City :: string
  CityAbbreviation :: string
  State :: string
  ZIPCode :: string
  ZIPPlus4 :: string
  Urbanization :: string

text \<open>
  \<^verbatim>\<open>convertResponse\<close> builds a \<^verbatim>\<open>Correction\<close> with the three fields below; the
  declaration in \<^verbatim>\<open>types.go\<close> lists \<^verbatim>\<open>Code\<close> and \<^verbatim>\<open>Text\<close> only.
\<close>

record Correction =
  Code :: string
  Text :: string
  UserMessage :: string

record Match =
  Code :: string
  Text :: string

record AdditionalInfo =
  DeliveryPoint :: string
  CarrierRoute :: string
  DPVConfirmation :: string
  DPVCMRA :: string
  Business :: string
  CentralDeliveryPoint :: string
  Vacant :: string

text \<open>A nil slice and an empty slice are both the empty list.\<close>

record ValidationResult =
  Address :: Address
  Corrections :: "Correction list"
  Matches :: "Match list"
  Warnings :: "string list"
  AdditionalInfo :: "AdditionalInfo option"

text \<open>
  The types of the generated package \<^verbatim>\<open>uspsinternal\<close>, with the fields that
  \<^verbatim>\<open>client.go\<close> reads. A pointer field is an \<open>option\<close>: \<open>None\<close> is nil.
\<close>

record DomesticAddress =
  StreetAddress :: "string option"
  StreetAddressAbbreviation :: "string option"
  SecondaryAddress :: "string option"
  City :: "string option"
  CityAbbreviation :: "string option"
  State :: "string option"
  ZIPCode :: "string option"
  ZIPPlus4 :: "string option"
  Urbanization :: "string option"

record AddressAdditionalInfo =
  DeliveryPoint :: "string option"
  CarrierRoute :: "string option"
  DPVConfirmation :: "string option"
  DPVCMRA :: "string option"
  Business :: "string option"
  CentralDeliveryPoint :: "string option"
  Vacant :: "string option"

text \<open>An entry of the provider's corrections and matches lists.\<close>

record CodeText =
  Code :: "string option"
  Text :: "string option"

record AddressResponse =
  Address :: "DomesticAddress option"
  Firm :: "string option"
  AdditionalInfo :: "AddressAdditionalInfo option"
  Corrections :: "CodeText list option"
  Matches :: "CodeText list option"
  Warnings :: "string list option"

record ErrorDetailSource =
  Parameter :: "string option"
  Example :: "string option"

record ErrorDetail =
  Detail :: "string option"
  Title :: "string option"
  Source :: "ErrorDetailSource option"

record ErrorBody =
  Code :: "string option"
  Message :: "string option"
  Errors :: "ErrorDetail list option"

record ErrorMessage =
  Error :: "ErrorBody option"

record GetAddressResponse =
  StatusCode :: int
  JSON200 :: "AddressResponse option"
  JSON400 :: "ErrorMessage option"
  JSON401 :: "ErrorMessage option"
  JSON403 :: "ErrorMessage option"
  JSON404 :: "ErrorMessage option"
  JSON429 :: "ErrorMessage option"
  JSON503 :: "ErrorMessage option"

text \<open>
  The caller's \<^verbatim>\<open>Address\<close> values live in a store, by address. \<^verbatim>\<open>ValidateAddress\<close>
  puts pointers to fields of the caller's value into the request parameters
  (\<^verbatim>\<open>&address.City\<close>): a \<open>strptr\<close> is the location of the value and the field.
\<close>

datatype field = FSecondaryAddress | FCity | FZIPCode | FFirm | FUrbanization

type_synonym strptr = "nat \<times> field"

record GetAddressParams =
  StreetAddress :: string
  State :: string
  SecondaryAddress :: "strptr option"
  City :: "strptr option"
  ZIPCode :: "strptr option"
  Firm :: "strptr option"
  Urbanization :: "strptr option"

text \<open>The query of an outbound GET: the parameters with their pointers followed.\<close>

record query =
  StreetAddress :: string
  State :: string
  SecondaryAddress :: "string option"
  City :: "string option"
  ZIPCode :: "string option"
  Firm :: "string option"
  Urbanization :: "string option"

section \<open>Effects: the trace, the environment, the state\<close>

text \<open>
  What a call does beyond its result is appended to a trace, in program order: the
  operations on the token manager's lock, the two stores into the cache, and the two kinds
  of network request (the POST to the token endpoint; the GET to the address endpoint with
  its bearer token). Debug output on stdout is left out.
\<close>

datatype event =
    EvRLock
  | EvRUnlock
  | EvLock
  | EvUnlock
  | EvSetAccessToken string
  | EvSetExpiresAt time
  | EvTokenPost request
  | EvAddressGet query string

text \<open>
  The environment: the clock (\<open>clock e n\<close> is the n-th reading of \<^verbatim>\<open>time.Now()\<close>),
  the library functions whose code is not part of the repository, and the two network
  endpoints, which answer a request knowing everything that happened before.
\<close>

record env =
  clock :: "nat \<Rightarrow> time"
  json_Marshal :: "(string \<times> string) list \<Rightarrow> string + string"
  http_NewRequest :: "string \<Rightarrow> string \<Rightarrow> string \<Rightarrow> string + request"
  httpClient_Do :: "event list \<Rightarrow> request \<Rightarrow> string + response"
  strings_ToUpper :: "string \<Rightarrow> string"
  address_Do :: "event list \<Rightarrow> query \<Rightarrow> string \<Rightarrow> string + GetAddressResponse"

record world =
  tm :: tokenManager
  ticks :: nat
  trace :: "event list"
  heap :: "nat \<Rightarrow> Address"

definition time_Now :: "env \<Rightarrow> world \<Rightarrow> time \<times> world" where
  "time_Now e w = (clock e (ticks w), w\<lparr>ticks := Suc (ticks w)\<rparr>)"

definition emit :: "event \<Rightarrow> world \<Rightarrow> world" where
  "emit ev w = w\<lparr>trace := trace w @ [ev]\<rparr>"

definition is_network :: "event \<Rightarrow> bool" where
  "is_network ev = (case ev of EvTokenPost r \<Rightarrow> True | EvAddressGet q t \<Rightarrow> True | _ \<Rightarrow> False)"

definition network_calls :: "world \<Rightarrow> nat" where
  "network_calls w = length (filter is_network (trace w))"

section \<open>getToken and refreshToken\<close>

definition newTokenManager :: "string \<Rightarrow> string \<Rightarrow> string \<Rightarrow> tokenManager" where
  "newTokenManager cid secret url =
     \<lparr>clientID = cid, clientSecret = secret, tokenURL = url,
      accessToken = [], expiresAt = zeroTime, refreshBuffer = 5 * Minute\<rparr>"

text \<open>
  The condition of lines 53 and 70,
  \<^verbatim>\<open>tm.accessToken != "" && time.Now().Before(tm.expiresAt)\<close>: the clock is read only
  when the token is not empty.
\<close>

definition token_valid :: "env \<Rightarrow> world \<Rightarrow> bool \<times> world" where
  "token_valid e w =
     (if accessToken (tm w) \<noteq> [] then
        (let (now, w1) = time_Now e w in (Before now (expiresAt (tm w1)), w1))
      else (False, w))"

definition Header_Set :: "string \<Rightarrow> string \<Rightarrow> request \<Rightarrow> request" where
  "Header_Set k v r = r\<lparr>Header := (k, v) # filter (\<lambda>h. fst h \<noteq> k) (Header r)\<rparr>"

text \<open>
  Lines 74 to 91 of \<^verbatim>\<open>refreshToken\<close>: the token request is built. The request map is
  given to the marshaller by sorted key.
\<close>

definition token_request :: "env \<Rightarrow> tokenManager \<Rightarrow> error + request" where
  "token_request e m =
     (let reqBody = [(''client_id'', clientID m),
                     (''client_secret'', clientSecret m),
                     (''grant_type'', ''client_credentials'')]
      in case json_Marshal e reqBody of
           Inl err \<Rightarrow> Inl (ErrMarshalTokenRequest err)
         | Inr bodyBytes \<Rightarrow>
            (case http_NewRequest e ''POST'' (tokenURL m) bodyBytes of
               Inl err \<Rightarrow> Inl (ErrCreateTokenRequest err)
             | Inr req \<Rightarrow> Inr (Header_Set ''Content-Type'' ''application/json'' req)))"

text \<open>Lines 113 to 121: the token is stored and its expiry computed.\<close>

definition store_token :: "env \<Rightarrow> tokenResponse \<Rightarrow> world \<Rightarrow> string \<times> world" where
  "store_token e tokenResp w =
     (let w1 = emit (EvSetAccessToken (AccessToken tokenResp))
                 (w\<lparr>tm := (tm w)\<lparr>accessToken := AccessToken tokenResp\<rparr>\<rparr>);
          expiresIn = ExpiresIn tokenResp * Second;
          expiresIn = (if expiresIn = 0 then 1 * Hour else expiresIn);
          (now, w2) = time_Now e w1;
          t = Add now (expiresIn - refreshBuffer (tm w2));
          w3 = emit (EvSetExpiresAt t) (w2\<lparr>tm := (tm w2)\<lparr>expiresAt := t\<rparr>\<rparr>)
      in (accessToken (tm w3), w3))"

text \<open>
  The body of \<^verbatim>\<open>refreshToken\<close> between \<^verbatim>\<open>tm.mu.Lock()\<close> and the deferred
  \<^verbatim>\<open>tm.mu.Unlock()\<close>.
\<close>

definition refreshToken_locked :: "env \<Rightarrow> world \<Rightarrow> (error + string) \<times> world" where
  "refreshToken_locked e w =
     (case token_valid e w of
        (True, w1) \<Rightarrow> (Inr (accessToken (tm w1)), w1)
      | (False, w1) \<Rightarrow>
         (case token_request e (tm w1) of
            Inl err \<Rightarrow> (Inl err, w1)
          | Inr req \<Rightarrow>
             (let w2 = emit (EvTokenPost req) w1
              in case httpClient_Do e (trace w1) req of
                   Inl err \<Rightarrow> (Inl (ErrTokenRequestFailed err), w2)
                 | Inr resp \<Rightarrow>
                    if response.StatusCode resp \<noteq> 200 then
                      (Inl (ErrTokenStatus (response.StatusCode resp)), w2)
                    else
                      (case Decoded resp of
                         Inl err \<Rightarrow> (Inl (ErrDecodeTokenResponse err), w2)
                       | Inr tokenResp \<Rightarrow>
                          if AccessToken tokenResp = [] then (Inl ErrEmptyAccessToken, w2)
                          else (let (token, w3) = store_token e tokenResp w2
                                in (Inr token, w3))))))"

definition refreshToken :: "env \<Rightarrow> world \<Rightarrow> (error + string) \<times> world" where
  "refreshToken e w =
     (let (r, w1) = refreshToken_locked e (emit EvLock w) in (r, emit EvUnlock w1))"

definition getToken :: "env \<Rightarrow> world \<Rightarrow> (error + string) \<times> world" where
  "getToken e w =
     (case token_valid e (emit EvRLock w) of
        (True, w1) \<Rightarrow> (let token = accessToken (tm w1) in (Inr token, emit EvRUnlock w1))
      | (False, w1) \<Rightarrow> refreshToken e (emit EvRUnlock w1))"

section \<open>The response and error translator (the second half of client.go)\<close>

definition stringValue :: "string option \<Rightarrow> string" where
  "stringValue s = (case s of None \<Rightarrow> [] | Some v \<Rightarrow> v)"

definition generateUserMessage :: "string \<Rightarrow> string \<Rightarrow> string \<Rightarrow> bool \<Rightarrow> string" where
  "generateUserMessage code text dpvConfirmation hasSecondaryAddress =
     (if code = ''32'' then
        (if dpvConfirmation = ''D'' then text
         else if dpvConfirmation = ''S'' \<and> hasSecondaryAddress then
           ''USPS does not have enough data to validate the secondary address. Please double check what you entered.''
         else text)
      else text)"

text \<open>The zero values of the structs, as \<^verbatim>\<open>Address{}\<close> and its like give them.\<close>

definition zero_Address :: Address where
  "zero_Address =
     \<lparr>Address.Firm = [], Address.StreetAddress = [], Address.StreetAddressAbbreviation = [], Address.SecondaryAddress = [],
      Address.City = [], Address.CityAbbreviation = [], Address.State = [], Address.ZIPCode = [], Address.ZIPPlus4 = [],
      Address.Urbanization = []\<rparr>"

definition zero_AdditionalInfo :: AdditionalInfo where
  "zero_AdditionalInfo =
     \<lparr>AdditionalInfo.DeliveryPoint = [], AdditionalInfo.CarrierRoute = [], AdditionalInfo.DPVConfirmation = [], AdditionalInfo.DPVCMRA = [],
      AdditionalInfo.Business = [], AdditionalInfo.CentralDeliveryPoint = [], AdditionalInfo.Vacant = []\<rparr>"

definition zero_ValidationResult :: ValidationResult where
  "zero_ValidationResult =
     \<lparr>ValidationResult.Address = zero_Address, ValidationResult.Corrections = [], ValidationResult.Matches = [], ValidationResult.Warnings = [],
      ValidationResult.AdditionalInfo = None\<rparr>"

definition zero_ErrorSource :: ErrorSource where
  "zero_ErrorSource = \<lparr>ErrorSource.Parameter = [], ErrorSource.Example = []\<rparr>"

definition zero_Error :: Error where
  "zero_Error = \<lparr>Error.Status = [], Error.Code = [], Error.Title = [], Error.Detail = [], Error.Source = None\<rparr>"

definition convertAddress :: "DomesticAddress \<Rightarrow> string option \<Rightarrow> Address" where
  "convertAddress addr firm =
     (let result = zero_Address;
          result = (case firm of None \<Rightarrow> result
                    | Some v \<Rightarrow> result\<lparr>Address.Firm := v\<rparr>);
          result = (case DomesticAddress.StreetAddress addr of None \<Rightarrow> result
                    | Some v \<Rightarrow> result\<lparr>Address.StreetAddress := v\<rparr>);
          result = (case DomesticAddress.StreetAddressAbbreviation addr of None \<Rightarrow> result
                    | Some v \<Rightarrow> result\<lparr>Address.StreetAddressAbbreviation := v\<rparr>);
          result = (case DomesticAddress.SecondaryAddress addr of None \<Rightarrow> result
                    | Some v \<Rightarrow> result\<lparr>Address.SecondaryAddress := v\<rparr>);
          result = (case DomesticAddress.City addr of None \<Rightarrow> result
                    | Some v \<Rightarrow> result\<lparr>Address.City := v\<rparr>);
          result = (case DomesticAddress.CityAbbreviation addr of None \<Rightarrow> result
                    | Some v \<Rightarrow> result\<lparr>Address.CityAbbreviation := v\<rparr>);
          result = (case DomesticAddress.State addr of None \<Rightarrow> result
                    | Some v \<Rightarrow> result\<lparr>Address.State := v\<rparr>);
          result = (case DomesticAddress.ZIPCode addr of None \<Rightarrow> result
                    | Some v \<Rightarrow> result\<lparr>Address.ZIPCode := v\<rparr>);
          result = (case DomesticAddress.ZIPPlus4 addr of None \<Rightarrow> result
                    | Some v \<Rightarrow> result\<lparr>Address.ZIPPlus4 := v\<rparr>);
          result = (case DomesticAddress.Urbanization addr of None \<Rightarrow> result
                    | Some v \<Rightarrow> result\<lparr>Address.Urbanization := v\<rparr>)
      in result)"

definition convertAdditionalInfo :: "AddressAdditionalInfo \<Rightarrow> AdditionalInfo" where
  "convertAdditionalInfo info =
     (let result = zero_AdditionalInfo;
          result = (case AddressAdditionalInfo.DeliveryPoint info of None \<Rightarrow> result
                    | Some v \<Rightarrow> result\<lparr>AdditionalInfo.DeliveryPoint := v\<rparr>);
          result = (case AddressAdditionalInfo.CarrierRoute info of None \<Rightarrow> result
                    | Some v \<Rightarrow> result\<lparr>AdditionalInfo.CarrierRoute := v\<rparr>);
          result = (case AddressAdditionalInfo.DPVConfirmation info of None \<Rightarrow> result
                    | Some v \<Rightarrow> result\<lparr>AdditionalInfo.DPVConfirmation := v\<rparr>);
          result = (case AddressAdditionalInfo.DPVCMRA info of None \<Rightarrow> result
                    | Some v \<Rightarrow> result\<lparr>AdditionalInfo.DPVCMRA := v\<rparr>);
          result = (case AddressAdditionalInfo.Business info of None \<Rightarrow> result
                    | Some v \<Rightarrow> result\<lparr>AdditionalInfo.Business := v\<rparr>);
          result = (case AddressAdditionalInfo.CentralDeliveryPoint info of None \<Rightarrow> result
                    | Some v \<Rightarrow> result\<lparr>AdditionalInfo.CentralDeliveryPoint := v\<rparr>);
          result = (case AddressAdditionalInfo.Vacant info of None \<Rightarrow> result
                    | Some v \<Rightarrow> result\<lparr>AdditionalInfo.Vacant := v\<rparr>)
      in result)"

text \<open>Lines 185 to 188 and line 191 of \<^verbatim>\<open>convertResponse\<close>.\<close>

definition dpvConfirmation :: "AddressResponse \<Rightarrow> string" where
  "dpvConfirmation resp =
     (case AddressResponse.AdditionalInfo resp of
        None \<Rightarrow> []
      | Some info \<Rightarrow>
         (case AddressAdditionalInfo.DPVConfirmation info of None \<Rightarrow> [] | Some d \<Rightarrow> d))"

definition hasSecondaryAddress :: "AddressResponse \<Rightarrow> bool" where
  "hasSecondaryAddress resp =
     (case AddressResponse.Address resp of
        None \<Rightarrow> False
      | Some addr \<Rightarrow>
         (case DomesticAddress.SecondaryAddress addr of None \<Rightarrow> False | Some v \<Rightarrow> v \<noteq> []))"

text \<open>The two loops of \<^verbatim>\<open>convertResponse\<close>; the last argument is the slice appended to.\<close>

fun convertCorrections :: "string \<Rightarrow> bool \<Rightarrow> CodeText list \<Rightarrow> Correction list \<Rightarrow> Correction list" where
  "convertCorrections dpv hasSec [] acc = acc"
| "convertCorrections dpv hasSec (c # cs) acc =
     (let code = stringValue (CodeText.Code c);
          text = stringValue (CodeText.Text c)
      in if code \<noteq> [] \<or> text \<noteq> [] then
           (let userMessage = generateUserMessage code text dpv hasSec
            in convertCorrections dpv hasSec cs
                 (acc @ [\<lparr>Correction.Code = code, Correction.Text = text,
                          Correction.UserMessage = userMessage\<rparr>]))
         else convertCorrections dpv hasSec cs acc)"

fun convertMatches :: "CodeText list \<Rightarrow> Match list \<Rightarrow> Match list" where
  "convertMatches [] acc = acc"
| "convertMatches (m # ms) acc =
     (let code = stringValue (CodeText.Code m);
          text = stringValue (CodeText.Text m)
      in if code \<noteq> [] \<or> text \<noteq> [] then
           convertMatches ms (acc @ [\<lparr>Match.Code = code, Match.Text = text\<rparr>])
         else convertMatches ms acc)"

definition convertResponse :: "AddressResponse \<Rightarrow> ValidationResult" where
  "convertResponse resp =
     (let result = zero_ValidationResult;
          result = (case AddressResponse.Address resp of
                      None \<Rightarrow> result
                    | Some addr \<Rightarrow>
                       result\<lparr>ValidationResult.Address :=
                                convertAddress addr (AddressResponse.Firm resp)\<rparr>);
          dpv = dpvConfirmation resp;
          hasSec = hasSecondaryAddress resp;
          result = (case AddressResponse.Corrections resp of
                      None \<Rightarrow> result
                    | Some cs \<Rightarrow>
                       result\<lparr>ValidationResult.Corrections :=
                                convertCorrections dpv hasSec cs []\<rparr>);
          result = (case AddressResponse.Matches resp of
                      None \<Rightarrow> result
                    | Some ms \<Rightarrow> result\<lparr>ValidationResult.Matches := convertMatches ms []\<rparr>);
          result = (case AddressResponse.Warnings resp of
                      None \<Rightarrow> result
                    | Some ws \<Rightarrow> result\<lparr>ValidationResult.Warnings := ws\<rparr>);
          result = (case AddressResponse.AdditionalInfo resp of
                      None \<Rightarrow> result
                    | Some info \<Rightarrow>
                       result\<lparr>ValidationResult.AdditionalInfo :=
                                Some (convertAdditionalInfo info)\<rparr>)
      in result)"

definition convertError :: "ErrorMessage option \<Rightarrow> Error" where
  "convertError errResp =
     (case errResp of
        None \<Rightarrow> zero_Error\<lparr>Error.Title := ''Unknown error''\<rparr>
      | Some msg \<Rightarrow>
         (case ErrorMessage.Error msg of
            None \<Rightarrow> zero_Error\<lparr>Error.Title := ''Unknown error''\<rparr>
          | Some e \<Rightarrow>
             (let result = zero_Error;
                  result = (case ErrorBody.Code e of
                              None \<Rightarrow> result
                            | Some c \<Rightarrow> result\<lparr>Error.Code := c, Error.Status := c\<rparr>);
                  result = (case ErrorBody.Message e of
                              None \<Rightarrow> result
                            | Some m \<Rightarrow> result\<lparr>Error.Detail := m, Error.Title := m\<rparr>);
                  result =
                    (case ErrorBody.Errors e of
                       None \<Rightarrow> result
                     | Some [] \<Rightarrow> result
                     | Some (firstErr # rest) \<Rightarrow>
                        (let result = (case ErrorDetail.Detail firstErr of
                                         None \<Rightarrow> result
                                       | Some d \<Rightarrow> result\<lparr>Error.Detail := d\<rparr>);
                             result = (case ErrorDetail.Title firstErr of
                                         None \<Rightarrow> result
                                       | Some t \<Rightarrow> result\<lparr>Error.Title := t\<rparr>);
                             result =
                               (case ErrorDetail.Source firstErr of
                                  None \<Rightarrow> result
                                | Some src \<Rightarrow>
                                   (let s = zero_ErrorSource;
                                        s = (case ErrorDetailSource.Parameter src of
                                               None \<Rightarrow> s
                                             | Some p \<Rightarrow> s\<lparr>ErrorSource.Parameter := p\<rparr>);
                                        s = (case ErrorDetailSource.Example src of
                                               None \<Rightarrow> s
                                             | Some x \<Rightarrow> s\<lparr>ErrorSource.Example := x\<rparr>)
                                    in result\<lparr>Error.Source := Some s\<rparr>))
                         in result))
              in result)))"

text \<open>The method \<^verbatim>\<open>Error()\<close> of \<^verbatim>\<open>types.go\<close>.\<close>

definition Error_Error :: "Error \<Rightarrow> string" where
  "Error_Error e =
     (if Error.Detail e \<noteq> [] then Error.Detail e
      else if Error.Title e \<noteq> [] then Error.Title e
      else ''USPS API error'')"

section \<open>The address validation client (the first half of client.go)\<close>

text \<open>
  The request editor that \<^verbatim>\<open>NewClient\<close> installs (lines 48 to 57): it asks the token
  manager for a token and yields the value of the \<^verbatim>\<open>Authorization\<close> header.
\<close>

definition requestEditor :: "env \<Rightarrow> world \<Rightarrow> (error + string) \<times> world" where
  "requestEditor e w =
     (let (r, w1) = getToken e w
      in case r of
           Inl err \<Rightarrow> (Inl (ErrGetAccessToken err), w1)
         | Inr token \<Rightarrow> (Inr (''Bearer '' @ token), w1))"

definition load :: "(nat \<Rightarrow> Address) \<Rightarrow> strptr \<Rightarrow> string" where
  "load h p =
     (case snd p of
        FSecondaryAddress \<Rightarrow> Address.SecondaryAddress (h (fst p))
      | FCity \<Rightarrow> Address.City (h (fst p))
      | FZIPCode \<Rightarrow> Address.ZIPCode (h (fst p))
      | FFirm \<Rightarrow> Address.Firm (h (fst p))
      | FUrbanization \<Rightarrow> Address.Urbanization (h (fst p)))"

definition params_query :: "(nat \<Rightarrow> Address) \<Rightarrow> GetAddressParams \<Rightarrow> query" where
  "params_query h params =
     \<lparr>query.StreetAddress = GetAddressParams.StreetAddress params,
      query.State = GetAddressParams.State params,
      query.SecondaryAddress = map_option (load h) (GetAddressParams.SecondaryAddress params),
      query.City = map_option (load h) (GetAddressParams.City params),
      query.ZIPCode = map_option (load h) (GetAddressParams.ZIPCode params),
      query.Firm = map_option (load h) (GetAddressParams.Firm params),
      query.Urbanization = map_option (load h) (GetAddressParams.Urbanization params)\<rparr>"

text \<open>
  Modelled from the spec: the method \<^verbatim>\<open>GetAddressWithResponse\<close> of the generated
  package \<^verbatim>\<open>uspsinternal\<close>, whose code is not among the sources. By sections 4.2 and 6
  of the specification it sends one GET whose query holds the street address, the state and
  each optional parameter that is present; every outbound request first invokes the
  request editor, which attaches the bearer token; a failure of the editor or of the
  transport is returned as an error, without retry. It reads the parameters and writes
  nothing through them.
\<close>

definition GetAddressWithResponse ::
  "env \<Rightarrow> GetAddressParams \<Rightarrow> world \<Rightarrow> (error + GetAddressResponse) \<times> world" where
  "GetAddressWithResponse e params w =
     (let q = params_query (heap w) params;
          (a, w1) = requestEditor e w
      in case a of
           Inl err \<Rightarrow> (Inl err, w1)
         | Inr authorization \<Rightarrow>
            (let w2 = emit (EvAddressGet q authorization) w1
             in case address_Do e (trace w1) q authorization of
                  Inl err \<Rightarrow> (Inl (ErrTransport err), w2)
                | Inr resp \<Rightarrow> (Inr resp, w2)))"

definition zero_GetAddressParams :: GetAddressParams where
  "zero_GetAddressParams =
     \<lparr>GetAddressParams.StreetAddress = [], GetAddressParams.State = [],
      GetAddressParams.SecondaryAddress = None, GetAddressParams.City = None,
      GetAddressParams.ZIPCode = None, GetAddressParams.Firm = None,
      GetAddressParams.Urbanization = None\<rparr>"

text \<open>
  Lines 75 to 108 of \<^verbatim>\<open>ValidateAddress\<close>: the required fields are checked and the
  request parameters built, for the address stored at \<open>l\<close>.
\<close>

definition address_params :: "env \<Rightarrow> world \<Rightarrow> nat \<Rightarrow> error + GetAddressParams" where
  "address_params e w l =
     (let address = heap w l
      in if Address.StreetAddress address = [] then Inl ErrStreetAddressRequired
         else
           (let params = zero_GetAddressParams
                           \<lparr>GetAddressParams.StreetAddress := Address.StreetAddress address\<rparr>
            in if Address.State address = [] then Inl ErrStateRequired
               else if length (Address.State address) \<noteq> 2 then Inl ErrStateRequired
               else
                 (let params = params\<lparr>GetAddressParams.State :=
                                         strings_ToUpper e (Address.State address)\<rparr>;
                      params = (if Address.SecondaryAddress address \<noteq> [] then
                                  params\<lparr>GetAddressParams.SecondaryAddress :=
                                           Some (l, FSecondaryAddress)\<rparr>
                                else params);
                      params = (if Address.City address \<noteq> [] then
                                  params\<lparr>GetAddressParams.City := Some (l, FCity)\<rparr>
                                else params);
                      params = (if Address.ZIPCode address \<noteq> [] then
                                  params\<lparr>GetAddressParams.ZIPCode := Some (l, FZIPCode)\<rparr>
                                else params);
                      params = (if Address.Firm address \<noteq> [] then
                                  params\<lparr>GetAddressParams.Firm := Some (l, FFirm)\<rparr>
                                else params);
                      params = (if Address.Urbanization address \<noteq> [] then
                                  params\<lparr>GetAddressParams.Urbanization :=
                                           Some (l, FUrbanization)\<rparr>
                                else params)
                  in Inr params)))"

text \<open>Lines 138 to 167: the response is classified.\<close>

definition handle_response :: "GetAddressResponse \<Rightarrow> error + ValidationResult list" where
  "handle_response resp =
     (if GetAddressResponse.StatusCode resp \<noteq> 200 then
        (if JSON400 resp \<noteq> None then Inl (ErrUSPS (convertError (JSON400 resp)))
         else if JSON401 resp \<noteq> None then Inl (ErrUSPS (convertError (JSON401 resp)))
         else if JSON403 resp \<noteq> None then Inl (ErrUSPS (convertError (JSON403 resp)))
         else if JSON404 resp \<noteq> None then Inl (ErrUSPS (convertError (JSON404 resp)))
         else if JSON429 resp \<noteq> None then Inl (ErrUSPS (convertError (JSON429 resp)))
         else if JSON503 resp \<noteq> None then Inl (ErrUSPS (convertError (JSON503 resp)))
         else Inl (ErrUnexpectedStatus (GetAddressResponse.StatusCode resp)))
      else
        (case JSON200 resp of
           None \<Rightarrow> Inl ErrEmptyResponse
         | Some r \<Rightarrow> Inr [convertResponse r]))"

text \<open>\<^verbatim>\<open>ValidateAddress\<close>; its argument is the pointer to the caller's address, or nil.\<close>

definition ValidateAddress ::
  "env \<Rightarrow> nat option \<Rightarrow> world \<Rightarrow> (error + ValidationResult list) \<times> world" where
  "ValidateAddress e address w =
     (case address of
        None \<Rightarrow> (Inl ErrAddressNil, w)
      | Some l \<Rightarrow>
         (case address_params e w l of
            Inl err \<Rightarrow> (Inl err, w)
          | Inr params \<Rightarrow>
             (let (r, w1) = GetAddressWithResponse e params w
              in case r of
                   Inl err \<Rightarrow> (Inl (ErrRequestFailed err), w1)
                 | Inr resp \<Rightarrow> (handle_response resp, w1))))"

section \<open>Concurrent callers of getToken\<close>

text \<open>
  \<^verbatim>\<open>getToken\<close> consists of two sections delimited by the lock \<^verbatim>\<open>tm.mu\<close>: the fast
  path between \<^verbatim>\<open>RLock\<close> and \<^verbatim>\<open>RUnlock\<close> (lines 51 to 58), which yields the cached
  token or nothing, and \<^verbatim>\<open>refreshToken\<close> between \<^verbatim>\<open>Lock\<close> and \<^verbatim>\<open>Unlock\<close>, entered
  only after the fast path yielded nothing.
\<close>

definition fast_section :: "env \<Rightarrow> world \<Rightarrow> string option \<times> world" where
  "fast_section e w =
     (case token_valid e (emit EvRLock w) of
        (True, w1) \<Rightarrow> (let token = accessToken (tm w1) in (Some token, emit EvRUnlock w1))
      | (False, w1) \<Rightarrow> (None, emit EvRUnlock w1))"

text \<open>
  Concurrent callers are interleaved at the grain of these sections. The exclusive section
  runs alone, as the lock guarantees; the shared sections may overlap one another, but
  they only read the cache, so any overlap of them has the results of some order. A
  caller has not started, or has left the fast path without a token and waits for the
  exclusive lock, or has returned. A schedule names, step by step, the caller whose next
  section runs; a step of a caller that has returned does nothing.
\<close>

datatype caller = Idle | Waiting | Returned "error + string"

definition step :: "env \<Rightarrow> nat \<Rightarrow> world \<times> (nat \<Rightarrow> caller) \<Rightarrow> world \<times> (nat \<Rightarrow> caller)" where
  "step e i s =
     (let w = fst s; cs = snd s
      in case cs i of
           Idle \<Rightarrow>
            (case fast_section e w of
               (Some token, w1) \<Rightarrow> (w1, cs(i := Returned (Inr token)))
             | (None, w1) \<Rightarrow> (w1, cs(i := Waiting)))
         | Waiting \<Rightarrow> (let (r, w1) = refreshToken e w in (w1, cs(i := Returned r)))
         | Returned r \<Rightarrow> (w, cs))"

fun run :: "env \<Rightarrow> nat list \<Rightarrow> world \<times> (nat \<Rightarrow> caller) \<Rightarrow> world \<times> (nat \<Rightarrow> caller)" where
  "run e [] s = s"
| "run e (i # sched) s = run e sched (step e i s)"

text \<open>The number of requests sent to the token endpoint so far.\<close>

definition is_token_post :: "event \<Rightarrow> bool" where
  "is_token_post ev = (case ev of EvTokenPost r \<Rightarrow> True | _ \<Rightarrow> False)"

definition token_posts :: "world \<Rightarrow> nat" where
  "token_posts w = length (filter is_token_post (trace w))"

section \<open>Properties read off the trace\<close>

text \<open>
  The discipline of the cache, checked on a trace: a store happens only while the
  exclusive lock is held, and within one critical section either nothing is stored or the
  token first and the expiry next, both before the lock is released.
\<close>

datatype cache_phase = Unlocked | Locked | TokenStored | BothStored

fun phase_step :: "cache_phase \<Rightarrow> event \<Rightarrow> cache_phase option" where
  "phase_step Unlocked EvLock = Some Locked"
| "phase_step Locked EvUnlock = Some Unlocked"
| "phase_step Locked (EvSetAccessToken s) = Some TokenStored"
| "phase_step TokenStored (EvSetExpiresAt t) = Some BothStored"
| "phase_step BothStored EvUnlock = Some Unlocked"
| "phase_step ph EvLock = None"
| "phase_step ph EvUnlock = None"
| "phase_step ph (EvSetAccessToken s) = None"
| "phase_step ph (EvSetExpiresAt t) = None"
| "phase_step ph ev = Some ph"

fun cache_discipline :: "cache_phase \<Rightarrow> event list \<Rightarrow> bool" where
  "cache_discipline ph [] = (ph = Unlocked)"
| "cache_discipline ph (ev # es) =
     (case phase_step ph ev of None \<Rightarrow> False | Some ph' \<Rightarrow> cache_discipline ph' es)"

text \<open>
  A failing answer to the token request: a network error, a status other than 200, a body
  that does not decode, or an empty access token.
\<close>

definition token_response_fails :: "string + response \<Rightarrow> bool" where
  "token_response_fails r =
     (case r of
        Inl err \<Rightarrow> True
      | Inr resp \<Rightarrow>
          response.StatusCode resp \<noteq> 200 \<or>
          (case Decoded resp of Inl err \<Rightarrow> True | Inr t \<Rightarrow> AccessToken t = []))"

text \<open>
  The duration added to the clock reading by lines 115 to 119, for \<^verbatim>\<open>ExpiresIn\<close> equal
  to \<open>n\<close> and a refresh buffer \<open>buf\<close>.
\<close>

definition expiry_window :: "64 word \<Rightarrow> duration \<Rightarrow> duration" where
  "expiry_window n buf = (if n * Second = 0 then 1 * Hour else n * Second) - buf"

text \<open>
  The first detailed sub-error of a provider error: present when the errors list is present
  and not empty.
\<close>

definition first_detail :: "ErrorBody \<Rightarrow> ErrorDetail option" where
  "first_detail b = (case ErrorBody.Errors b of Some (d # ds) \<Rightarrow> Some d | _ \<Rightarrow> None)"

text \<open>The GET requests to the address endpoint among the events.\<close>

definition is_address_get :: "event \<Rightarrow> bool" where
  "is_address_get ev = (case ev of EvAddressGet q a \<Rightarrow> True | _ \<Rightarrow> False)"

text \<open>
  The number of characters of a string in UTF-8: every byte except the continuation
  bytes, 128 to 191, starts a character.
\<close>

definition character_count :: "string \<Rightarrow> nat" where
  "character_count s =
     length (filter (\<lambda>c. \<not> (128 \<le> (of_char c :: nat) \<and> (of_char c :: nat) < 192)) s)"

section \<open>Example inputs\<close>

text \<open>
  Concrete inputs on which the theorems below are instantiated: an environment whose
  \<open>strings_ToUpper\<close> maps the ASCII letters, whose token endpoint grants a token for
  one hour and whose address endpoint answers with one canonical address; variants whose
  token endpoint fails or grants a token for 2 to the power 55 seconds; and states with an
  empty, a valid and an expired cache.
\<close>

definition ascii_upper :: "char \<Rightarrow> char" where
  "ascii_upper c =
     (case map_of (zip ''abcdefghijklmnopqrstuvwxyz'' ''ABCDEFGHIJKLMNOPQRSTUVWXYZ'') c of
        None \<Rightarrow> c
      | Some u \<Rightarrow> u)"

definition ex_address :: Address where
  "ex_address =
     \<lparr>Address.Firm = [], Address.StreetAddress = ''1600 Pennsylvania Ave NW'',
      Address.StreetAddressAbbreviation = [], Address.SecondaryAddress = [],
      Address.City = ''Washington'', Address.CityAbbreviation = [], Address.State = ''dc'',
      Address.ZIPCode = [], Address.ZIPPlus4 = [], Address.Urbanization = []\<rparr>"

definition ex_tokenResponse :: tokenResponse where
  "ex_tokenResponse = \<lparr>AccessToken = ''tok1'', TokenType = ''Bearer'', ExpiresIn = 3600\<rparr>"

definition ex_AddressResponse :: AddressResponse where
  "ex_AddressResponse =
     \<lparr>AddressResponse.Address = Some
        \<lparr>DomesticAddress.StreetAddress = Some ''1600 PENNSYLVANIA AVE NW'',
         DomesticAddress.StreetAddressAbbreviation = None,
         DomesticAddress.SecondaryAddress = Some ''APT 1'',
         DomesticAddress.City = Some ''WASHINGTON'', DomesticAddress.CityAbbreviation = None,
         DomesticAddress.State = Some ''DC'', DomesticAddress.ZIPCode = Some ''20500'',
         DomesticAddress.ZIPPlus4 = None, DomesticAddress.Urbanization = None\<rparr>,
      AddressResponse.Firm = None,
      AddressResponse.AdditionalInfo = Some
        \<lparr>AddressAdditionalInfo.DeliveryPoint = None, AddressAdditionalInfo.CarrierRoute = None,
         AddressAdditionalInfo.DPVConfirmation = Some ''S'',
         AddressAdditionalInfo.DPVCMRA = None, AddressAdditionalInfo.Business = None,
         AddressAdditionalInfo.CentralDeliveryPoint = None,
         AddressAdditionalInfo.Vacant = None\<rparr>,
      AddressResponse.Corrections = Some
        [\<lparr>CodeText.Code = Some ''32'', CodeText.Text = Some ''More information needed''\<rparr>,
         \<lparr>CodeText.Code = None, CodeText.Text = None\<rparr>],
      AddressResponse.Matches = None,
      AddressResponse.Warnings = None\<rparr>"

definition ex_GetAddressResponse :: GetAddressResponse where
  "ex_GetAddressResponse =
     \<lparr>GetAddressResponse.StatusCode = 200, JSON200 = Some ex_AddressResponse, JSON400 = None,
      JSON401 = None, JSON403 = None, JSON404 = None, JSON429 = None, JSON503 = None\<rparr>"

definition ex_env :: env where
  "ex_env =
     \<lparr>clock = (\<lambda>n. 1000 + int n),
      json_Marshal = (\<lambda>kvs. Inr (concat (map (\<lambda>kv. fst kv @ ''='' @ snd kv @ '';'') kvs))),
      http_NewRequest = (\<lambda>m u b. Inr \<lparr>Method = m, URL = u, Body = b, Header = []\<rparr>),
      httpClient_Do = (\<lambda>tr req. Inr \<lparr>response.StatusCode = 200,
                                        Decoded = Inr ex_tokenResponse\<rparr>),
      strings_ToUpper = map ascii_upper,
      address_Do = (\<lambda>tr q auth. Inr ex_GetAddressResponse)\<rparr>"

definition ex_world :: world where
  "ex_world =
     \<lparr>tm = newTokenManager ''id'' ''secret'' ''https://apis.usps.com/oauth2/v3/token'',
      ticks = 0, trace = [], heap = (\<lambda>l. ex_address)\<rparr>"

definition ex_cached_world :: world where
  "ex_cached_world = ex_world\<lparr>tm := (tm ex_world)\<lparr>accessToken := ''tok0'', expiresAt := 5000\<rparr>\<rparr>"

definition ex_expired_world :: world where
  "ex_expired_world = ex_world\<lparr>tm := (tm ex_world)\<lparr>accessToken := ''tok0'', expiresAt := 500\<rparr>\<rparr>"

definition ex_failing_env :: env where
  "ex_failing_env =
     ex_env\<lparr>httpClient_Do := (\<lambda>tr req. Inr \<lparr>response.StatusCode = 503,
                                                Decoded = Inl ''unexpected end of JSON input''\<rparr>)\<rparr>"

definition ex_token_request :: request where
  "ex_token_request =
     \<lparr>Method = ''POST'', URL = ''https://apis.usps.com/oauth2/v3/token'',
      Body = ''client_id=id;client_secret=secret;grant_type=client_credentials;'',
      Header = [(''Content-Type'', ''application/json'')]\<rparr>"

definition big_tokenResponse :: tokenResponse where
  "big_tokenResponse =
     \<lparr>AccessToken = ''tok1'', TokenType = ''Bearer'', ExpiresIn = 36028797018963968\<rparr>"

definition big_env :: env where
  "big_env =
     ex_env\<lparr>httpClient_Do := (\<lambda>tr req. Inr \<lparr>response.StatusCode = 200,
                                                Decoded = Inr big_tokenResponse\<rparr>)\<rparr>"

definition ex_ErrorMessage :: ErrorMessage where
  "ex_ErrorMessage =
     \<lparr>ErrorMessage.Error = Some
        \<lparr>ErrorBody.Code = Some ''401'', ErrorBody.Message = Some ''Unauthorized'',
         ErrorBody.Errors = Some
           [\<lparr>ErrorDetail.Detail = Some ''The access token has expired'',
             ErrorDetail.Title = None,
             ErrorDetail.Source = Some \<lparr>ErrorDetailSource.Parameter = Some ''Authorization'',
                                        ErrorDetailSource.Example = None\<rparr>\<rparr>]\<rparr>\<rparr>"

definition ex_query :: query where
  "ex_query =
     \<lparr>query.StreetAddress = ''1600 Pennsylvania Ave NW'', query.State = ''DC'',
      query.SecondaryAddress = None, query.City = Some ''Washington'', query.ZIPCode = None,
      query.Firm = None, query.Urbanization = None\<rparr>"

definition ex_bad_state_world :: world where
  "ex_bad_state_world = ex_world\<lparr>heap := (\<lambda>l. ex_address\<lparr>Address.State := ''D.C.''\<rparr>)\<rparr>"

text \<open>
  Three callers that have all left the fast path on an empty cache; the winner of the
  exclusive lock is caller 0.
\<close>

definition ex_raced_world :: world where
  "ex_raced_world =
     ex_world\<lparr>trace := [EvRLock, EvRUnlock, EvRLock, EvRUnlock, EvRLock, EvRUnlock]\<rparr>"

definition ex_losers :: "nat \<Rightarrow> caller" where
  "ex_losers = (\<lambda>i. Waiting)(0 := Returned (Inr ''tok1''))"

text \<open>
  A state whose two bytes are the one character U+00E9, and an environment whose
  \<open>strings_ToUpper\<close> maps it to U+00C9.
\<close>

definition eacute :: string where
  "eacute = [CHR 0xC3, CHR 0xA9]"

definition ex_unicode_env :: env where
  "ex_unicode_env =
     ex_env\<lparr>strings_ToUpper :=
              (\<lambda>s. if s = eacute then [CHR 0xC3, CHR 0x89] else map ascii_upper s)\<rparr>"

definition ex_eacute_world :: world where
  "ex_eacute_world = ex_world\<lparr>heap := (\<lambda>l. ex_address\<lparr>Address.State := eacute\<rparr>)\<rparr>"

definition ex_AddressResponse_D :: AddressResponse where
  "ex_AddressResponse_D =
     ex_AddressResponse\<lparr>AddressResponse.AdditionalInfo := Some
        \<lparr>AddressAdditionalInfo.DeliveryPoint = None, AddressAdditionalInfo.CarrierRoute = None,
         AddressAdditionalInfo.DPVConfirmation = Some ''D'',
         AddressAdditionalInfo.DPVCMRA = None, AddressAdditionalInfo.Business = None,
         AddressAdditionalInfo.CentralDeliveryPoint = None,
         AddressAdditionalInfo.Vacant = None\<rparr>\<rparr>"

section \<open>The token manager: proofs\<close>

lemma token_valid_frame:
  "tm (snd (token_valid e w)) = tm w" "trace (snd (token_valid e w)) = trace w"
  "heap (snd (token_valid e w)) = heap w"
  by (simp_all add: token_valid_def time_Now_def split: prod.splits)

lemma token_valid_True:
  "accessToken (tm w) \<noteq> [] \<Longrightarrow> clock e (ticks w) < expiresAt (tm w) \<Longrightarrow>
   token_valid e w = (True, w\<lparr>ticks := Suc (ticks w)\<rparr>)"
  by (simp add: token_valid_def time_Now_def Before_def)

lemma store_token_eq:
  "store_token e t w =
     (AccessToken t,
      w\<lparr>tm := (tm w)\<lparr>accessToken := AccessToken t,
                       expiresAt := Add (clock e (ticks w))
                                      (expiry_window (ExpiresIn t) (refreshBuffer (tm w)))\<rparr>,
        ticks := Suc (ticks w),
        trace := trace w @ [EvSetAccessToken (AccessToken t),
                            EvSetExpiresAt (Add (clock e (ticks w))
                                      (expiry_window (ExpiresIn t) (refreshBuffer (tm w))))]\<rparr>)"
  by (simp add: store_token_def emit_def time_Now_def expiry_window_def Let_def)

lemma locked_valid:
  "token_valid e w = (True, w1) \<Longrightarrow>
   refreshToken_locked e w = (Inr (accessToken (tm w)), w1)"
  using token_valid_frame(1) [of e w] by (simp add: refreshToken_locked_def)

lemma locked_no_request:
  "token_valid e w = (False, w1) \<Longrightarrow> token_request e (tm w) = Inl err \<Longrightarrow>
   refreshToken_locked e w = (Inl err, w1)"
  using token_valid_frame(1) [of e w] by (simp add: refreshToken_locked_def)

lemma locked_fails:
  "token_valid e w = (False, w1) \<Longrightarrow> token_request e (tm w) = Inr req \<Longrightarrow>
   token_response_fails (httpClient_Do e (trace w) req) \<Longrightarrow>
   \<exists>err. refreshToken_locked e w = (Inl err, emit (EvTokenPost req) w1)"
  using token_valid_frame(1,2) [of e w]
  by (auto simp: refreshToken_locked_def token_response_fails_def Let_def split: sum.splits)

lemma locked_succeeds:
  "token_valid e w = (False, w1) \<Longrightarrow> token_request e (tm w) = Inr req \<Longrightarrow>
   httpClient_Do e (trace w) req = Inr resp \<Longrightarrow> response.StatusCode resp = 200 \<Longrightarrow>
   Decoded resp = Inr t \<Longrightarrow> AccessToken t \<noteq> [] \<Longrightarrow>
   refreshToken_locked e w =
     (Inr (AccessToken t), snd (store_token e t (emit (EvTokenPost req) w1)))"
  using token_valid_frame(1,2) [of e w]
  by (simp add: refreshToken_locked_def Let_def store_token_eq)

lemma token_response_cases:
  "token_response_fails r \<or>
   (\<exists>resp t. r = Inr resp \<and> response.StatusCode resp = 200 \<and> Decoded resp = Inr t \<and>
      AccessToken t \<noteq> [])"
  by (auto simp: token_response_fails_def split: sum.splits)

lemma sint_seconds:
  fixes n :: "64 word"
  assumes "- 9223371736 \<le> sint n" "sint n \<le> 9223372336"
  shows "sint (n * Second - 5 * Minute) = sint n * 1000000000 - 300000000000"
proof -
  have "n * Second - 5 * Minute = word_of_int (sint n * 1000000000 - 300000000000)"
    by (simp add: Second_def Minute_def)
  then have "sint (n * Second - 5 * Minute) =
      signed_take_bit 63 (sint n * 1000000000 - 300000000000)"
    by (simp only: sint_sbintrunc') simp
  also have "\<dots> = sint n * 1000000000 - 300000000000"
    using assms by (intro signed_take_bit_int_eq_self) simp_all
  finally show ?thesis .
qed

lemma seconds_nonzero:
  fixes n :: "64 word"
  assumes "- 9223371736 \<le> sint n" "sint n \<le> 9223372336" "n \<noteq> 0"
  shows "n * Second \<noteq> 0"
proof
  assume z: "n * Second = 0"
  have "n * Second - 5 * Minute = - (5 * Minute)" using z by simp
  then have "sint (n * Second - 5 * Minute) = - 300000000000"
    by (simp add: Minute_def Second_def)
  then have "sint n * 1000000000 = 0"
    using sint_seconds [OF assms(1,2)] by simp
  then have "sint n = 0" by simp
  then have "n = 0" by (simp add: signed_eq_0_iff)
  with assms show False by simp
qed

lemma default_window: "sint (Hour - 5 * Minute) = 3300000000000"
  by (simp add: Hour_def Minute_def Second_def)

lemma refreshToken_cases:
  obtains
    (valid) wv where "refreshToken e w = (Inr (accessToken (tm w)), emit EvUnlock wv)"
      "tm wv = tm w" "trace wv = trace w @ [EvLock]" "heap wv = heap w"
      "accessToken (tm w) \<noteq> []" "ticks wv = Suc (ticks w)"
  | (no_request) err wv where "refreshToken e w = (Inl err, emit EvUnlock wv)"
      "tm wv = tm w" "trace wv = trace w @ [EvLock]" "heap wv = heap w"
  | (failed) err req wv where
      "refreshToken e w = (Inl err, emit EvUnlock (emit (EvTokenPost req) wv))"
      "tm wv = tm w" "trace wv = trace w @ [EvLock]" "heap wv = heap w"
      "token_response_fails (httpClient_Do e (trace w @ [EvLock]) req)"
  | (stored) req resp t wv where
      "refreshToken e w =
         (Inr (AccessToken t), emit EvUnlock (snd (store_token e t (emit (EvTokenPost req) wv))))"
      "tm wv = tm w" "trace wv = trace w @ [EvLock]" "heap wv = heap w"
      "httpClient_Do e (trace w @ [EvLock]) req = Inr resp" "response.StatusCode resp = 200"
      "Decoded resp = Inr t" "AccessToken t \<noteq> []"
proof -
  obtain b wv where v: "token_valid e (emit EvLock w) = (b, wv)"
    by (cases "token_valid e (emit EvLock w)")
  have fr: "tm wv = tm w" "trace wv = trace w @ [EvLock]" "heap wv = heap w"
    using token_valid_frame [of e "emit EvLock w"] v by (simp_all add: emit_def)
  have fr0: "tm (emit EvLock w) = tm w" "trace (emit EvLock w) = trace w @ [EvLock]"
    by (simp_all add: emit_def)
  show thesis
  proof (cases b)
    case True
    with v have "refreshToken_locked e (emit EvLock w) = (Inr (accessToken (tm w)), wv)"
      using locked_valid [of e "emit EvLock w" wv] fr0 by simp
    then have "refreshToken e w = (Inr (accessToken (tm w)), emit EvUnlock wv)"
      by (simp add: refreshToken_def)
    moreover have "accessToken (tm w) \<noteq> []" "ticks wv = Suc (ticks w)"
      using v True
      by (auto simp: token_valid_def time_Now_def emit_def split: if_splits prod.splits)
    ultimately show thesis using fr by (intro valid [of wv]) simp_all
  next
    case False
    with v have v': "token_valid e (emit EvLock w) = (False, wv)" by simp
    show thesis
    proof (cases "token_request e (tm w)")
      case (Inl err)
      then have "refreshToken_locked e (emit EvLock w) = (Inl err, wv)"
        using locked_no_request [OF v', of err] fr0 by simp
      then have "refreshToken e w = (Inl err, emit EvUnlock wv)"
        by (simp add: refreshToken_def)
      then show thesis using fr by (rule no_request)
    next
      case (Inr req)
      then have rq: "token_request e (tm (emit EvLock w)) = Inr req" using fr0 by simp
      consider (f) "token_response_fails (httpClient_Do e (trace w @ [EvLock]) req)"
        | (s) resp t where "httpClient_Do e (trace w @ [EvLock]) req = Inr resp"
            "response.StatusCode resp = 200" "Decoded resp = Inr t" "AccessToken t \<noteq> []"
        using token_response_cases [of "httpClient_Do e (trace w @ [EvLock]) req"] by blast
      then show thesis
      proof cases
        case f
        then obtain err where
          "refreshToken_locked e (emit EvLock w) = (Inl err, emit (EvTokenPost req) wv)"
          using locked_fails [OF v' rq] fr0 by auto
        then have "refreshToken e w = (Inl err, emit EvUnlock (emit (EvTokenPost req) wv))"
          by (simp add: refreshToken_def)
        then show thesis using fr f by (rule failed)
      next
        case s
        then have "refreshToken_locked e (emit EvLock w) =
          (Inr (AccessToken t), snd (store_token e t (emit (EvTokenPost req) wv)))"
          using locked_succeeds [OF v' rq, of resp t] fr0 by simp
        then have "refreshToken e w =
          (Inr (AccessToken t), emit EvUnlock (snd (store_token e t (emit (EvTokenPost req) wv))))"
          by (simp add: refreshToken_def)
        then show thesis using fr s by (rule stored)
      qed
    qed
  qed
qed

lemma getToken_frame:
  obtains es where "trace (snd (getToken e w)) = trace w @ es"
    "\<forall>ev \<in> set es. \<not> is_address_get ev" "heap (snd (getToken e w)) = heap w"
    "cache_discipline Unlocked es"
proof -
  obtain b w1 where v: "token_valid e (emit EvRLock w) = (b, w1)"
    by (cases "token_valid e (emit EvRLock w)")
  have fr: "trace w1 = trace w @ [EvRLock]" "heap w1 = heap w"
    using token_valid_frame [of e "emit EvRLock w"] v by (simp_all add: emit_def)
  show thesis
  proof (cases b)
    case True
    with v fr have "trace (snd (getToken e w)) = trace w @ [EvRLock, EvRUnlock]"
      "heap (snd (getToken e w)) = heap w"
      by (simp_all add: getToken_def emit_def)
    then show thesis
      by (intro that [of "[EvRLock, EvRUnlock]"]) (simp_all add: is_address_get_def)
  next
    case False
    let ?w2 = "emit EvRUnlock w1"
    have g: "getToken e w = refreshToken e ?w2"
      using v False by (simp add: getToken_def)
    have fr2: "trace ?w2 = trace w @ [EvRLock, EvRUnlock]" "heap ?w2 = heap w"
      using fr by (simp_all add: emit_def)
    show thesis
    proof (cases rule: refreshToken_cases [of e ?w2])
      case (valid wv)
      with g fr2 show thesis
        by (intro that [of "[EvRLock, EvRUnlock, EvLock, EvUnlock]"])
          (simp_all add: emit_def is_address_get_def)
    next
      case (no_request err wv)
      with g fr2 show thesis
        by (intro that [of "[EvRLock, EvRUnlock, EvLock, EvUnlock]"])
          (simp_all add: emit_def is_address_get_def)
    next
      case (failed err req wv)
      with g fr2 show thesis
        by (intro that [of "[EvRLock, EvRUnlock, EvLock, EvTokenPost req, EvUnlock]"])
          (simp_all add: emit_def is_address_get_def)
    next
      case (stored req resp t wv)
      with g fr2 show thesis
        by (intro that [of "[EvRLock, EvRUnlock, EvLock, EvTokenPost req,
              EvSetAccessToken (AccessToken t),
              EvSetExpiresAt (Add (clock e (ticks wv))
                 (expiry_window (ExpiresIn t) (refreshBuffer (tm wv)))), EvUnlock]"])
          (simp_all add: emit_def is_address_get_def store_token_eq)
    qed
  qed
qed

text \<open>
  The double check of lines 69 to 72, for one caller: when the cache is valid under the
  exclusive lock, \<open>refreshToken\<close> returns the cached token and sends no request.
\<close>

lemma refreshToken_double_check:
  assumes "accessToken (tm w) \<noteq> []" and "clock e (ticks w) < expiresAt (tm w)"
  shows "fst (refreshToken e w) = Inr (accessToken (tm w))"
    and "tm (snd (refreshToken e w)) = tm w"
    and "trace (snd (refreshToken e w)) = trace w @ [EvLock, EvUnlock]"
proof -
  have "token_valid e (emit EvLock w) = (True, (emit EvLock w)\<lparr>ticks := Suc (ticks w)\<rparr>)"
    using assms token_valid_True [of "emit EvLock w" e] by (simp add: emit_def)
  then have "refreshToken e w =
      (Inr (accessToken (tm w)), emit EvUnlock ((emit EvLock w)\<lparr>ticks := Suc (ticks w)\<rparr>))"
    by (simp add: refreshToken_def refreshToken_locked_def emit_def)
  then show "fst (refreshToken e w) = Inr (accessToken (tm w))"
    and "tm (snd (refreshToken e w)) = tm w"
    and "trace (snd (refreshToken e w)) = trace w @ [EvLock, EvUnlock]"
    by (simp_all add: emit_def)
qed

lemma getToken_sections:
  "getToken e w =
     (case fast_section e w of
        (Some token, w1) \<Rightarrow> (Inr token, w1)
      | (None, w1) \<Rightarrow> refreshToken e w1)"
  by (simp add: getToken_def fast_section_def Let_def split: prod.splits bool.splits)

lemma fast_section_valid:
  assumes "accessToken (tm w) \<noteq> []" and "clock e (ticks w) < expiresAt (tm w)"
  shows "fast_section e w =
     (Some (accessToken (tm w)), w\<lparr>ticks := Suc (ticks w), trace := trace w @ [EvRLock, EvRUnlock]\<rparr>)"
  using assms token_valid_True [of "emit EvRLock w" e]
  by (simp add: fast_section_def emit_def)

lemma step_in_cycle:
  assumes ne: "accessToken (tm w) \<noteq> []" and lt: "clock e (ticks w) < expiresAt (tm w)"
  shows "tm (fst (step e i (w, cs))) = tm w"
    and "token_posts (fst (step e i (w, cs))) = token_posts w"
    and "ticks w \<le> ticks (fst (step e i (w, cs)))"
    and "ticks (fst (step e i (w, cs))) \<le> Suc (ticks w)"
    and "snd (step e i (w, cs)) =
           (case cs i of Returned r \<Rightarrow> cs | _ \<Rightarrow> cs(i := Returned (Inr (accessToken (tm w)))))"
proof -
  have f: "fast_section e w =
     (Some (accessToken (tm w)), w\<lparr>ticks := Suc (ticks w), trace := trace w @ [EvRLock, EvRUnlock]\<rparr>)"
    using ne lt by (rule fast_section_valid)
  have r: "fst (refreshToken e w) = Inr (accessToken (tm w))"
    "tm (snd (refreshToken e w)) = tm w"
    "trace (snd (refreshToken e w)) = trace w @ [EvLock, EvUnlock]"
    using ne lt by (rule refreshToken_double_check)+
  have rt: "ticks (snd (refreshToken e w)) = Suc (ticks w)"
  proof (cases rule: refreshToken_cases [of e w])
    case (valid wv)
    then show ?thesis by (simp add: emit_def)
  next
    case (no_request err wv)
    with r(1) show ?thesis by simp
  next
    case (failed err req wv)
    with r(1) show ?thesis by simp
  next
    case (stored req resp t wv)
    with r(3) show ?thesis by (simp add: emit_def store_token_eq)
  qed
  obtain w1 where rr: "refreshToken e w = (Inr (accessToken (tm w)), w1)"
    and w1: "tm w1 = tm w" "trace w1 = trace w @ [EvLock, EvUnlock]" "ticks w1 = Suc (ticks w)"
    using r rt by (cases "refreshToken e w") simp
  show "tm (fst (step e i (w, cs))) = tm w"
    using f rr w1 by (cases "cs i") (simp_all add: step_def)
  show "token_posts (fst (step e i (w, cs))) = token_posts w"
    using f rr w1 by (cases "cs i") (simp_all add: step_def token_posts_def is_token_post_def)
  show "ticks w \<le> ticks (fst (step e i (w, cs)))"
    using f rr w1 by (cases "cs i") (simp_all add: step_def)
  show "ticks (fst (step e i (w, cs))) \<le> Suc (ticks w)"
    using f rr w1 by (cases "cs i") (simp_all add: step_def)
  show "snd (step e i (w, cs)) =
           (case cs i of Returned r \<Rightarrow> cs | _ \<Rightarrow> cs(i := Returned (Inr (accessToken (tm w)))))"
    using f rr by (cases "cs i") (simp_all add: step_def)
qed

lemma run_in_cycle:
  assumes "accessToken (tm w) \<noteq> []"
    and "\<forall>n. ticks w \<le> n \<and> n < ticks w + length sched \<longrightarrow> clock e n < expiresAt (tm w)"
  shows "tm (fst (run e sched (w, cs))) = tm w \<and>
         token_posts (fst (run e sched (w, cs))) = token_posts w \<and>
         (\<forall>i. snd (run e sched (w, cs)) i =
            (if i \<in> set sched \<and> (\<forall>r. cs i \<noteq> Returned r)
             then Returned (Inr (accessToken (tm w))) else cs i))"
  using assms
proof (induction sched arbitrary: w cs)
  case Nil
  then show ?case by simp
next
  case (Cons j sched)
  have lt: "clock e (ticks w) < expiresAt (tm w)"
    using Cons.prems(2) by simp
  note st = step_in_cycle [OF Cons.prems(1) lt, of j cs]
  obtain w' cs' where s: "step e j (w, cs) = (w', cs')" by (cases "step e j (w, cs)")
  with st have w': "tm w' = tm w" "token_posts w' = token_posts w" "ticks w \<le> ticks w'"
    "ticks w' \<le> Suc (ticks w)"
    and cs': "cs' = (case cs j of Returned r \<Rightarrow> cs
                     | _ \<Rightarrow> cs(j := Returned (Inr (accessToken (tm w)))))"
    by simp_all
  have ne': "accessToken (tm w') \<noteq> []" using w' Cons.prems(1) by simp
  have cyc': "\<forall>n. ticks w' \<le> n \<and> n < ticks w' + length sched \<longrightarrow>
      clock e n < expiresAt (tm w')"
    using Cons.prems(2) w' by auto
  have ih: "tm (fst (run e sched (w', cs'))) = tm w' \<and>
         token_posts (fst (run e sched (w', cs'))) = token_posts w' \<and>
         (\<forall>i. snd (run e sched (w', cs')) i =
            (if i \<in> set sched \<and> (\<forall>r. cs' i \<noteq> Returned r)
             then Returned (Inr (accessToken (tm w'))) else cs' i))"
    using ne' cyc' by (rule Cons.IH)
  show ?case
    using ih s w' cs' by (cases "cs j") (auto split: caller.splits)
qed

lemmas token_model_defs = getToken_def refreshToken_def refreshToken_locked_def
  token_valid_def token_request_def store_token_def time_Now_def emit_def Header_Set_def
  Add_def Before_def Second_def Minute_def Hour_def newTokenManager_def zeroTime_def

lemmas ex_defs = ex_env_def ex_world_def ex_tokenResponse_def ex_cached_world_def
  ex_expired_world_def ex_failing_env_def ex_token_request_def big_env_def
  big_tokenResponse_def

text \<open>
  Claim C1. Whenever the cached access token is not empty and the clock reading taken by
  the fast path is before \<open>expiresAt\<close>, \<open>getToken\<close> returns the cached token; the
  token manager, and with it the cached token and expiry, is unchanged; the call adds to
  the trace only the shared lock and its release, so it makes no network request.
\<close>

theorem getToken_fast_path:
  assumes "accessToken (tm w) \<noteq> []" and "clock e (ticks w) < expiresAt (tm w)"
  shows "fst (getToken e w) = Inr (accessToken (tm w)) \<and>
         tm (snd (getToken e w)) = tm w \<and>
         trace (snd (getToken e w)) = trace w @ [EvRLock, EvRUnlock] \<and>
         network_calls (snd (getToken e w)) = network_calls w"
  using assms
  by (simp add: getToken_def emit_def token_valid_True network_calls_def is_network_def)

theorem getToken_fast_path_witness:
  "accessToken (tm ex_cached_world) \<noteq> [] \<and>
   clock ex_env (ticks ex_cached_world) < expiresAt (tm ex_cached_world) \<and>
   fst (getToken ex_env ex_cached_world) = Inr ''tok0'' \<and>
   tm (snd (getToken ex_env ex_cached_world)) = tm ex_cached_world \<and>
   network_calls (snd (getToken ex_env ex_cached_world)) = 0"
  using getToken_fast_path [of ex_cached_world ex_env]
  by (simp add: ex_defs newTokenManager_def network_calls_def is_network_def)

text \<open>
  Claim C2. Let one caller's \<open>refreshToken\<close> return a token: the winner of the
  exclusive lock. Then for every schedule of other callers, whether they have not started
  or have already left the fast path and wait for the lock, as long as the clock readings
  they take are before the stored \<open>expiresAt\<close>: no further request goes to the token
  endpoint, so that the winner's section and the whole schedule together send at most
  one; the cache stays as the winner left it; and every caller that runs returns the
  winner's token, the waiting ones through the double check. The last part states that
  \<open>getToken\<close> is the fast section followed, when it yields nothing, by \<open>refreshToken\<close>.
\<close>

theorem getToken_one_request_per_cycle:
  assumes win: "fst (refreshToken e w0) = Inr token"
    and cycle: "\<forall>n. ticks (snd (refreshToken e w0)) \<le> n \<and>
                   n < ticks (snd (refreshToken e w0)) + length sched \<longrightarrow>
                   clock e n < expiresAt (tm (snd (refreshToken e w0)))"
  shows "token_posts (fst (run e sched (snd (refreshToken e w0), cs))) \<le> Suc (token_posts w0) \<and>
         token_posts (fst (run e sched (snd (refreshToken e w0), cs))) =
           token_posts (snd (refreshToken e w0)) \<and>
         tm (fst (run e sched (snd (refreshToken e w0), cs))) = tm (snd (refreshToken e w0)) \<and>
         accessToken (tm (snd (refreshToken e w0))) = token \<and>
         (\<forall>i \<in> set sched. (\<forall>r. cs i \<noteq> Returned r) \<longrightarrow>
            snd (run e sched (snd (refreshToken e w0), cs)) i = Returned (Inr token)) \<and>
         (\<forall>w. getToken e w =
            (case fast_section e w of
               (Some t, w1) \<Rightarrow> (Inr t, w1)
             | (None, w1) \<Rightarrow> refreshToken e w1))"
proof -
  let ?w1 = "snd (refreshToken e w0)"
  have tok: "accessToken (tm ?w1) = token \<and> token \<noteq> [] \<and>
      token_posts ?w1 \<le> Suc (token_posts w0)"
  proof (cases rule: refreshToken_cases [of e w0])
    case (valid wv)
    with win show ?thesis by (simp add: emit_def token_posts_def is_token_post_def)
  next
    case (no_request err wv)
    with win show ?thesis by simp
  next
    case (failed err req wv)
    with win show ?thesis by simp
  next
    case (stored req resp t wv)
    with win show ?thesis
      by (simp add: emit_def store_token_eq token_posts_def is_token_post_def)
  qed
  then have ne: "accessToken (tm ?w1) \<noteq> []" by simp
  have inv: "tm (fst (run e sched (?w1, cs))) = tm ?w1 \<and>
         token_posts (fst (run e sched (?w1, cs))) = token_posts ?w1 \<and>
         (\<forall>i. snd (run e sched (?w1, cs)) i =
            (if i \<in> set sched \<and> (\<forall>r. cs i \<noteq> Returned r)
             then Returned (Inr (accessToken (tm ?w1))) else cs i))"
    using ne cycle by (rule run_in_cycle)
  with tok show ?thesis by (simp add: getToken_sections)
qed

theorem getToken_one_request_per_cycle_witness:
  "fst (run ex_env [0, 1, 2] (ex_world, \<lambda>i. Idle)) = ex_raced_world \<and>
   snd (run ex_env [0, 1, 2] (ex_world, \<lambda>i. Idle)) 1 = Waiting \<and>
   snd (run ex_env [0, 1, 2] (ex_world, \<lambda>i. Idle)) 2 = Waiting \<and>
   fst (refreshToken ex_env ex_raced_world) = Inr ''tok1'' \<and>
   token_posts ex_raced_world = 0 \<and>
   token_posts (fst (run ex_env [1, 2] (snd (refreshToken ex_env ex_raced_world), ex_losers))) = 1 \<and>
   snd (run ex_env [1, 2] (snd (refreshToken ex_env ex_raced_world), ex_losers)) 1 =
     Returned (Inr ''tok1'') \<and>
   snd (run ex_env [1, 2] (snd (refreshToken ex_env ex_raced_world), ex_losers)) 2 =
     Returned (Inr ''tok1'')"
proof -
  have win: "fst (refreshToken ex_env ex_raced_world) = Inr ''tok1''"
    by (simp add: ex_raced_world_def ex_defs token_model_defs)
  have w1: "ticks (snd (refreshToken ex_env ex_raced_world)) = 1"
    "expiresAt (tm (snd (refreshToken ex_env ex_raced_world))) = 3300000001000"
    "token_posts (snd (refreshToken ex_env ex_raced_world)) = 1"
    by (simp_all add: ex_raced_world_def ex_defs token_model_defs token_posts_def
          is_token_post_def)
  have cycle: "\<forall>n. ticks (snd (refreshToken ex_env ex_raced_world)) \<le> n \<and>
      n < ticks (snd (refreshToken ex_env ex_raced_world)) + length [1, 2 :: nat] \<longrightarrow>
      clock ex_env n < expiresAt (tm (snd (refreshToken ex_env ex_raced_world)))"
    unfolding w1 by (simp add: ex_env_def)
  have raced: "run ex_env [0, 1, 2] (ex_world, \<lambda>i. Idle) = (ex_raced_world, \<lambda>i. if i = 0 \<or> i = 1 \<or> i = 2 then Waiting else Idle)"
    by (auto simp: step_def fast_section_def ex_raced_world_def ex_world_def ex_env_def
          token_model_defs fun_eq_iff)
  have none: "token_posts ex_raced_world = 0"
    by (simp add: ex_raced_world_def token_posts_def is_token_post_def)
  from getToken_one_request_per_cycle [OF win cycle, of ex_losers] w1 win raced none
  show ?thesis
    by (simp add: ex_losers_def)
qed

text \<open>
  Claim C3. Whenever \<open>refreshToken\<close> returns an error, the cached access token and the
  expiry are those of before the call. It returns an error whenever the token request it
  sent got a failing answer: a network error, a status other than 200, a malformed body or
  an empty access token. After any call the token manager is either unchanged or differs
  in the token and the expiry together, the token being the one returned; and on the trace
  of the call, as on the trace of a call of \<open>getToken\<close>, the stores respect the
  discipline of the cache: both happen, token first, inside one section between the
  exclusive lock and its release.
\<close>

theorem refreshToken_failure_keeps_cache:
  "(\<forall>err. fst (refreshToken e w) = Inl err \<longrightarrow>
      accessToken (tm (snd (refreshToken e w))) = accessToken (tm w) \<and>
      expiresAt (tm (snd (refreshToken e w))) = expiresAt (tm w)) \<and>
   (\<forall>req. EvTokenPost req \<in> set (drop (length (trace w)) (trace (snd (refreshToken e w)))) \<and>
      token_response_fails (httpClient_Do e (trace w @ [EvLock]) req) \<longrightarrow>
      (\<exists>err. fst (refreshToken e w) = Inl err)) \<and>
   (tm (snd (refreshToken e w)) = tm w \<or>
    (\<exists>token t. fst (refreshToken e w) = Inr token \<and>
       tm (snd (refreshToken e w)) = (tm w)\<lparr>accessToken := token, expiresAt := t\<rparr>)) \<and>
   take (length (trace w)) (trace (snd (refreshToken e w))) = trace w \<and>
   cache_discipline Unlocked (drop (length (trace w)) (trace (snd (refreshToken e w)))) \<and>
   take (length (trace w)) (trace (snd (getToken e w))) = trace w \<and>
   cache_discipline Unlocked (drop (length (trace w)) (trace (snd (getToken e w))))"
proof -
  obtain es where "trace (snd (getToken e w)) = trace w @ es" "cache_discipline Unlocked es"
    by (rule getToken_frame [of e w])
  then have g: "take (length (trace w)) (trace (snd (getToken e w))) = trace w"
    "cache_discipline Unlocked (drop (length (trace w)) (trace (snd (getToken e w))))"
    by simp_all
  show ?thesis
  proof (cases rule: refreshToken_cases [of e w])
    case (valid wv)
    with g show ?thesis by (simp add: emit_def)
  next
    case (no_request err wv)
    with g show ?thesis by (simp add: emit_def)
  next
    case (failed err req wv)
    with g show ?thesis by (simp add: emit_def)
  next
    case (stored req resp t wv)
    with g show ?thesis
      by (auto simp: emit_def store_token_eq token_response_fails_def)
  qed
qed

theorem refreshToken_failure_keeps_cache_witness:
  "fst (refreshToken ex_failing_env ex_expired_world) = Inl (ErrTokenStatus 503) \<and>
   EvTokenPost ex_token_request \<in>
     set (drop (length (trace ex_expired_world))
            (trace (snd (refreshToken ex_failing_env ex_expired_world)))) \<and>
   token_response_fails
     (httpClient_Do ex_failing_env (trace ex_expired_world @ [EvLock]) ex_token_request) \<and>
   accessToken (tm (snd (refreshToken ex_failing_env ex_expired_world))) = ''tok0'' \<and>
   expiresAt (tm (snd (refreshToken ex_failing_env ex_expired_world))) = 500"
  using refreshToken_failure_keeps_cache [of ex_failing_env ex_expired_world]
  by (simp add: ex_defs token_model_defs token_response_fails_def)

text \<open>
  Claim C4, amended. After a successful token response whose \<open>expires_in\<close>, in seconds,
  lies between -9223371736 and 9223372336 (the values for which \<open>expires_in\<close> seconds
  minus five minutes, in nanoseconds, is in the signed 64-bit range of a duration), with
  the refresh buffer of five minutes that \<open>newTokenManager\<close> sets: the token of the
  response is stored and returned, and \<open>expiresAt\<close> is the last clock reading of the
  call, taken at the store, plus 55 minutes if \<open>expires_in\<close> is zero or absent, plus
  \<open>expires_in\<close> seconds minus five minutes otherwise.
\<close>

theorem refreshToken_expiry:
  assumes buf: "refreshBuffer (tm w) = 5 * Minute"
    and post: "EvTokenPost req \<in> set (drop (length (trace w)) (trace (snd (refreshToken e w))))"
    and answer: "httpClient_Do e (trace w @ [EvLock]) req = Inr resp"
    and ok: "response.StatusCode resp = 200" "Decoded resp = Inr t" "AccessToken t \<noteq> []"
    and range: "- 9223371736 \<le> sint (ExpiresIn t)" "sint (ExpiresIn t) \<le> 9223372336"
  shows "fst (refreshToken e w) = Inr (AccessToken t) \<and>
         accessToken (tm (snd (refreshToken e w))) = AccessToken t \<and>
         expiresAt (tm (snd (refreshToken e w))) =
           clock e (ticks (snd (refreshToken e w)) - 1) +
           (if ExpiresIn t = 0 then 3300000000000
            else sint (ExpiresIn t) * 1000000000 - 300000000000)"
proof (cases rule: refreshToken_cases [of e w])
  case (valid wv)
  with post show ?thesis by (simp add: emit_def)
next
  case (no_request err wv)
  with post show ?thesis by (simp add: emit_def)
next
  case (failed err req' wv)
  with post have "req' = req" by (simp add: emit_def)
  with failed answer ok show ?thesis by (simp add: token_response_fails_def)
next
  case (stored req' resp' t' wv)
  with post have "req' = req" by (simp add: emit_def store_token_eq)
  with stored answer ok have t: "t' = t" by simp
  have win: "sint (expiry_window (ExpiresIn t) (5 * Minute)) =
      (if ExpiresIn t = 0 then 3300000000000
       else sint (ExpiresIn t) * 1000000000 - 300000000000)"
  proof (cases "ExpiresIn t = 0")
    case True
    then show ?thesis by (simp add: expiry_window_def default_window)
  next
    case False
    with range have "ExpiresIn t * Second \<noteq> 0"
      by (intro seconds_nonzero) simp_all
    with False range show ?thesis by (simp add: expiry_window_def sint_seconds)
  qed
  from stored t buf show ?thesis
    by (simp add: emit_def store_token_eq Add_def win)
qed

theorem refreshToken_expiry_witness:
  "refreshBuffer (tm ex_world) = 5 * Minute \<and>
   EvTokenPost ex_token_request \<in>
     set (drop (length (trace ex_world)) (trace (snd (refreshToken ex_env ex_world)))) \<and>
   httpClient_Do ex_env (trace ex_world @ [EvLock]) ex_token_request =
     Inr \<lparr>response.StatusCode = 200, Decoded = Inr ex_tokenResponse\<rparr> \<and>
   AccessToken ex_tokenResponse \<noteq> [] \<and>
   - 9223371736 \<le> sint (ExpiresIn ex_tokenResponse) \<and>
   sint (ExpiresIn ex_tokenResponse) \<le> 9223372336 \<and>
   fst (refreshToken ex_env ex_world) = Inr ''tok1'' \<and>
   expiresAt (tm (snd (refreshToken ex_env ex_world))) = 1000 + 3600 * 1000000000 - 300000000000"
  using refreshToken_expiry [of ex_world ex_token_request ex_env
      "\<lparr>response.StatusCode = 200, Decoded = Inr ex_tokenResponse\<rparr>" ex_tokenResponse]
  by (simp add: ex_defs token_model_defs)

text \<open>
  The claim C4 as first stated fails where the duration wraps around: for the non-zero
  \<open>expires_in\<close> of 36028797018963968 seconds (2 to the power 55) the product with
  1000000000 is zero in 64 bits, line 116 takes it for an absent value, and the stored
  expiry is the clock reading plus 55 minutes.
\<close>

theorem refreshToken_expiry_counterexample:
  "fst (refreshToken big_env ex_world) = Inr (AccessToken big_tokenResponse) \<and>
   ExpiresIn big_tokenResponse \<noteq> 0 \<and>
   sint (ExpiresIn big_tokenResponse) = 36028797018963968 \<and>
   expiresAt (tm (snd (refreshToken big_env ex_world))) = 1000 + 3300000000000 \<and>
   expiresAt (tm (snd (refreshToken big_env ex_world))) \<noteq>
     1000 + 36028797018963968 * 1000000000 - 300000000000"
  by (simp add: ex_defs token_model_defs)

section \<open>The translator: proofs\<close>

lemma convertCorrections_eq:
  "convertCorrections dpv hasSec cs acc =
     acc @ map (\<lambda>c. \<lparr>Correction.Code = stringValue (CodeText.Code c),
                      Correction.Text = stringValue (CodeText.Text c),
                      Correction.UserMessage =
                        generateUserMessage (stringValue (CodeText.Code c))
                          (stringValue (CodeText.Text c)) dpv hasSec\<rparr>)
             (filter (\<lambda>c. stringValue (CodeText.Code c) \<noteq> [] \<or>
                           stringValue (CodeText.Text c) \<noteq> []) cs)"
  by (induction cs arbitrary: acc) (simp_all add: Let_def)

lemma convertResponse_Corrections:
  "ValidationResult.Corrections (convertResponse resp) =
     (case AddressResponse.Corrections resp of
        None \<Rightarrow> []
      | Some cs \<Rightarrow> convertCorrections (dpvConfirmation resp) (hasSecondaryAddress resp) cs [])"
  by (simp add: convertResponse_def zero_ValidationResult_def Let_def split: option.splits)

lemma convertResponse_Address:
  "ValidationResult.Address (convertResponse resp) =
     (case AddressResponse.Address resp of
        None \<Rightarrow> zero_Address
      | Some addr \<Rightarrow> convertAddress addr (AddressResponse.Firm resp))"
  by (simp add: convertResponse_def zero_ValidationResult_def Let_def split: option.splits)

lemma convertAddress_SecondaryAddress:
  "Address.SecondaryAddress (convertAddress addr firm) =
     stringValue (DomesticAddress.SecondaryAddress addr)"
  by (simp add: convertAddress_def zero_Address_def stringValue_def Let_def split: option.splits)

lemma hasSecondaryAddress_result:
  "hasSecondaryAddress resp \<longleftrightarrow>
     Address.SecondaryAddress (ValidationResult.Address (convertResponse resp)) \<noteq> []"
  by (simp add: hasSecondaryAddress_def convertResponse_Address convertAddress_SecondaryAddress
        zero_Address_def stringValue_def split: option.splits)

text \<open>
  Claim C7. Every correction of the result whose code is "32" carries as its user message:
  the provider's text when the field \<open>DPVConfirmation\<close> of the response's additional
  info is "D"; the fixed clarifying string when that field is "S" and the canonical
  address of the result has a non-empty secondary address; the provider's text in every
  other case, also when the additional info or the field is absent. The secondary address
  of the canonical address is the one of the response's address, empty when absent. The
  corrections of the result are the provider's entries with a non-empty code or text, in
  order, with the provider's code and text. \<open>generateUserMessage\<close> follows the same
  rule on its arguments.
\<close>

theorem correction_32_message:
  "(\<forall>c \<in> set (ValidationResult.Corrections (convertResponse resp)).
      Correction.Code c = ''32'' \<longrightarrow>
      Correction.UserMessage c =
        (if Option.bind (AddressResponse.AdditionalInfo resp)
              AddressAdditionalInfo.DPVConfirmation = Some ''D''
         then Correction.Text c
         else if Option.bind (AddressResponse.AdditionalInfo resp)
                   AddressAdditionalInfo.DPVConfirmation = Some ''S'' \<and>
                 Address.SecondaryAddress (ValidationResult.Address (convertResponse resp)) \<noteq> []
           then ''USPS does not have enough data to validate the secondary address. Please double check what you entered.''
         else Correction.Text c)) \<and>
   Address.SecondaryAddress (ValidationResult.Address (convertResponse resp)) =
     (case Option.bind (AddressResponse.Address resp) DomesticAddress.SecondaryAddress of
        None \<Rightarrow> [] | Some v \<Rightarrow> v) \<and>
   map (\<lambda>c. (Correction.Code c, Correction.Text c))
     (ValidationResult.Corrections (convertResponse resp)) =
   filter (\<lambda>p. fst p \<noteq> [] \<or> snd p \<noteq> [])
     (map (\<lambda>c. (case CodeText.Code c of None \<Rightarrow> [] | Some v \<Rightarrow> v,
                 case CodeText.Text c of None \<Rightarrow> [] | Some v \<Rightarrow> v))
        (case AddressResponse.Corrections resp of None \<Rightarrow> [] | Some cs \<Rightarrow> cs)) \<and>
   (\<forall>text dpv sec. generateUserMessage ''32'' text dpv sec =
      (if dpv = ''D'' then text
       else if dpv = ''S'' \<and> sec
         then ''USPS does not have enough data to validate the secondary address. Please double check what you entered.''
       else text))"
proof -
  let ?ind = "Option.bind (AddressResponse.AdditionalInfo resp)
                AddressAdditionalInfo.DPVConfirmation"
  have sec: "hasSecondaryAddress resp =
      (Address.SecondaryAddress (ValidationResult.Address (convertResponse resp)) \<noteq> [])"
    by (rule hasSecondaryAddress_result)
  have dpvD: "(dpvConfirmation resp = ''D'') = (?ind = Some ''D'')"
    and dpvS: "(dpvConfirmation resp = ''S'') = (?ind = Some ''S'')"
    by (auto simp: dpvConfirmation_def split: option.splits)
  have addr: "Address.SecondaryAddress (ValidationResult.Address (convertResponse resp)) =
     (case Option.bind (AddressResponse.Address resp) DomesticAddress.SecondaryAddress of
        None \<Rightarrow> [] | Some v \<Rightarrow> v)"
    by (simp add: convertResponse_Address convertAddress_SecondaryAddress zero_Address_def
          stringValue_def split: option.splits)
  have gen: "\<forall>text dpv sec. generateUserMessage ''32'' text dpv sec =
      (if dpv = ''D'' then text
       else if dpv = ''S'' \<and> sec
         then ''USPS does not have enough data to validate the secondary address. Please double check what you entered.''
       else text)"
    by (simp add: generateUserMessage_def)
  have main: "(\<forall>c \<in> set (ValidationResult.Corrections (convertResponse resp)).
      Correction.Code c = ''32'' \<longrightarrow>
      Correction.UserMessage c =
        (if dpvConfirmation resp = ''D'' then Correction.Text c
         else if dpvConfirmation resp = ''S'' \<and> hasSecondaryAddress resp
           then ''USPS does not have enough data to validate the secondary address. Please double check what you entered.''
         else Correction.Text c)) \<and>
   map (\<lambda>c. (Correction.Code c, Correction.Text c))
     (ValidationResult.Corrections (convertResponse resp)) =
   filter (\<lambda>p. fst p \<noteq> [] \<or> snd p \<noteq> [])
     (map (\<lambda>c. (case CodeText.Code c of None \<Rightarrow> [] | Some v \<Rightarrow> v,
                 case CodeText.Text c of None \<Rightarrow> [] | Some v \<Rightarrow> v))
        (case AddressResponse.Corrections resp of None \<Rightarrow> [] | Some cs \<Rightarrow> cs))"
  proof (cases "AddressResponse.Corrections resp")
    case None
    then show ?thesis by (simp add: convertResponse_Corrections)
  next
    case (Some cs)
    then show ?thesis
      by (auto simp: convertResponse_Corrections convertCorrections_eq generateUserMessage_def
            filter_map comp_def stringValue_def)
  qed
  show ?thesis
    using main addr gen unfolding dpvD dpvS sec by simp
qed

theorem correction_32_message_witness:
  "ValidationResult.Corrections (convertResponse ex_AddressResponse) =
     [\<lparr>Correction.Code = ''32'', Correction.Text = ''More information needed'',
       Correction.UserMessage = ''USPS does not have enough data to validate the secondary address. Please double check what you entered.''\<rparr>] \<and>
   Option.bind (AddressResponse.AdditionalInfo ex_AddressResponse)
     AddressAdditionalInfo.DPVConfirmation = Some ''S'' \<and>
   Address.SecondaryAddress (ValidationResult.Address (convertResponse ex_AddressResponse)) =
     ''APT 1'' \<and>
   Option.bind (AddressResponse.AdditionalInfo ex_AddressResponse_D)
     AddressAdditionalInfo.DPVConfirmation = Some ''D'' \<and>
   ValidationResult.Corrections (convertResponse ex_AddressResponse_D) =
     [\<lparr>Correction.Code = ''32'', Correction.Text = ''More information needed'',
       Correction.UserMessage = ''More information needed''\<rparr>]"
  using correction_32_message [of ex_AddressResponse]
    correction_32_message [of ex_AddressResponse_D]
  by (simp add: ex_AddressResponse_D_def ex_AddressResponse_def convertResponse_def
        convertAddress_def zero_ValidationResult_def zero_Address_def zero_AdditionalInfo_def
        convertAdditionalInfo_def dpvConfirmation_def hasSecondaryAddress_def
        stringValue_def generateUserMessage_def Let_def)

text \<open>
  Claim C8. For a provider error response with an inner error, the translated error has:
  as title the title of the first detailed sub-error when there is such a sub-error and it
  has a title, else the top-level message; as detail the detail of that sub-error when
  present, else the top-level message; as source the source of that sub-error when
  present (each of its two fields when present, else empty), else none; as code and
  status the top-level code.
\<close>

theorem convertError_first_detail:
  assumes "ErrorMessage.Error msg = Some b"
  shows "convertError (Some msg) =
     \<lparr>Error.Status = stringValue (ErrorBody.Code b),
      Error.Code = stringValue (ErrorBody.Code b),
      Error.Title = (case first_detail b of
                       None \<Rightarrow> stringValue (ErrorBody.Message b)
                     | Some d \<Rightarrow> (case ErrorDetail.Title d of
                                    None \<Rightarrow> stringValue (ErrorBody.Message b)
                                  | Some t \<Rightarrow> t)),
      Error.Detail = (case first_detail b of
                        None \<Rightarrow> stringValue (ErrorBody.Message b)
                      | Some d \<Rightarrow> (case ErrorDetail.Detail d of
                                     None \<Rightarrow> stringValue (ErrorBody.Message b)
                                   | Some t \<Rightarrow> t)),
      Error.Source = (case first_detail b of
                        None \<Rightarrow> None
                      | Some d \<Rightarrow>
                         map_option
                           (\<lambda>s. \<lparr>ErrorSource.Parameter = stringValue (ErrorDetailSource.Parameter s),
                                  ErrorSource.Example = stringValue (ErrorDetailSource.Example s)\<rparr>)
                           (ErrorDetail.Source d))\<rparr>"
  using assms
  by (simp add: convertError_def first_detail_def zero_Error_def zero_ErrorSource_def
        stringValue_def Let_def split: option.splits list.splits)

theorem convertError_first_detail_witness:
  "ErrorMessage.Error ex_ErrorMessage \<noteq> None \<and>
   convertError (Some ex_ErrorMessage) =
     \<lparr>Error.Status = ''401'', Error.Code = ''401'', Error.Title = ''Unauthorized'',
      Error.Detail = ''The access token has expired'',
      Error.Source = Some \<lparr>ErrorSource.Parameter = ''Authorization'',
                            ErrorSource.Example = []\<rparr>\<rparr>"
  using convertError_first_detail [of ex_ErrorMessage "the (ErrorMessage.Error ex_ErrorMessage)"]
  by (simp add: ex_ErrorMessage_def first_detail_def stringValue_def)

text \<open>
  Claim C10. \<open>Error()\<close> returns the detail when it is not empty, else the title when it
  is not empty, else the string "USPS API error"; and \<open>convertError\<close> of a nil response,
  or of a response whose inner error is nil, has the title "Unknown error".
\<close>

theorem Error_Error_message:
  "(Error.Detail e \<noteq> [] \<longrightarrow> Error_Error e = Error.Detail e) \<and>
   (Error.Detail e = [] \<and> Error.Title e \<noteq> [] \<longrightarrow> Error_Error e = Error.Title e) \<and>
   (Error.Detail e = [] \<and> Error.Title e = [] \<longrightarrow> Error_Error e = ''USPS API error'') \<and>
   Error.Title (convertError None) = ''Unknown error'' \<and>
   (\<forall>msg. ErrorMessage.Error msg = None \<longrightarrow>
      Error.Title (convertError (Some msg)) = ''Unknown error'')"
  by (simp add: Error_Error_def convertError_def zero_Error_def)

theorem Error_Error_message_witness:
  "Error_Error (convertError (Some ex_ErrorMessage)) = ''The access token has expired'' \<and>
   Error_Error (convertError None) = ''Unknown error'' \<and>
   Error_Error zero_Error = ''USPS API error'' \<and>
   Error.Title (convertError (Some \<lparr>ErrorMessage.Error = None\<rparr>)) = ''Unknown error''"
  using Error_Error_message [of "convertError (Some ex_ErrorMessage)"]
    Error_Error_message [of "convertError None"] Error_Error_message [of zero_Error]
  by (simp add: ex_ErrorMessage_def convertError_def zero_Error_def zero_ErrorSource_def
        Let_def)

section \<open>The client: proofs\<close>

lemma GetAddressWithResponse_frame:
  obtains es where
    "trace (snd (GetAddressWithResponse e params w)) = trace w @ es"
    "\<forall>ev \<in> set es. is_address_get ev \<longrightarrow>
        (\<exists>a. ev = EvAddressGet (params_query (heap w) params) a)"
    "heap (snd (GetAddressWithResponse e params w)) = heap w"
proof -
  obtain es where t: "trace (snd (getToken e w)) = trace w @ es"
    "\<forall>ev \<in> set es. \<not> is_address_get ev" "heap (snd (getToken e w)) = heap w"
    by (rule getToken_frame [of e w])
  obtain r w1 where g: "getToken e w = (r, w1)" by (cases "getToken e w")
  with t have t1: "trace w1 = trace w @ es" "heap w1 = heap w" by simp_all
  show thesis
  proof (cases r)
    case (Inl err)
    with g t1 t(2) show thesis
      by (intro that [of es])
        (simp_all add: GetAddressWithResponse_def requestEditor_def)
  next
    case (Inr token)
    with g t1 t(2) show thesis
      by (intro that [of "es @ [EvAddressGet (params_query (heap w) params) (''Bearer '' @ token)]"])
        (auto simp: GetAddressWithResponse_def requestEditor_def emit_def Let_def
          split: sum.splits)
  qed
qed

lemma ValidateAddress_frame:
  assumes "address_params e w l = Inr params"
  obtains es where
    "trace (snd (ValidateAddress e (Some l) w)) = trace w @ es"
    "\<forall>ev \<in> set es. is_address_get ev \<longrightarrow>
        (\<exists>a. ev = EvAddressGet (params_query (heap w) params) a)"
proof -
  obtain es where t: "trace (snd (GetAddressWithResponse e params w)) = trace w @ es"
    "\<forall>ev \<in> set es. is_address_get ev \<longrightarrow>
        (\<exists>a. ev = EvAddressGet (params_query (heap w) params) a)"
    by (rule GetAddressWithResponse_frame)
  have "snd (ValidateAddress e (Some l) w) = snd (GetAddressWithResponse e params w)"
    using assms by (simp add: ValidateAddress_def split: prod.splits sum.splits)
  with t show thesis by (intro that [of es]) simp_all
qed

lemma address_params_Inl:
  "address_params e w l = Inl err \<longleftrightarrow>
     (Address.StreetAddress (heap w l) = [] \<and> err = ErrStreetAddressRequired) \<or>
     (Address.StreetAddress (heap w l) \<noteq> [] \<and> length (Address.State (heap w l)) \<noteq> 2 \<and>
      err = ErrStateRequired)"
  by (auto simp: address_params_def Let_def)

lemma address_params_Inr:
  assumes "address_params e w l = Inr params"
  shows "Address.StreetAddress (heap w l) \<noteq> []" "length (Address.State (heap w l)) = 2"
    "params =
      \<lparr>GetAddressParams.StreetAddress = Address.StreetAddress (heap w l),
       GetAddressParams.State = strings_ToUpper e (Address.State (heap w l)),
       GetAddressParams.SecondaryAddress =
         (if Address.SecondaryAddress (heap w l) = [] then None else Some (l, FSecondaryAddress)),
       GetAddressParams.City = (if Address.City (heap w l) = [] then None else Some (l, FCity)),
       GetAddressParams.ZIPCode =
         (if Address.ZIPCode (heap w l) = [] then None else Some (l, FZIPCode)),
       GetAddressParams.Firm = (if Address.Firm (heap w l) = [] then None else Some (l, FFirm)),
       GetAddressParams.Urbanization =
         (if Address.Urbanization (heap w l) = [] then None else Some (l, FUrbanization))\<rparr>"
  using assms
  by (auto simp: address_params_def zero_GetAddressParams_def Let_def split: if_splits)

lemmas client_model_defs = ValidateAddress_def GetAddressWithResponse_def requestEditor_def
  address_params_def zero_GetAddressParams_def params_query_def load_def handle_response_def

lemma ex_ValidateAddress_trace:
  "trace (snd (ValidateAddress ex_env (Some 0) ex_world)) =
     [EvRLock, EvRUnlock, EvLock, EvTokenPost ex_token_request, EvSetAccessToken ''tok1'',
      EvSetExpiresAt 3300000001000, EvUnlock, EvAddressGet ex_query ''Bearer tok1'']"
  by (simp add: client_model_defs token_model_defs ex_defs ex_address_def ex_query_def
        ascii_upper_def Let_def)

text \<open>
  Claim C5, amended. A call with a nil address, or with an address whose street address is
  empty or whose state is empty or not exactly two bytes long (the length that Go's
  \<^verbatim>\<open>len\<close> measures), returns an error and leaves the whole state as it was: the trace
  gains no event, so no network call is made. When the required fields are present, the
  state of the request parameters is \<^verbatim>\<open>strings.ToUpper\<close> of the input's, and so is
  the state of every GET the call sends.
\<close>

theorem ValidateAddress_preconditions:
  "((address = None \<or>
     (\<exists>l. address = Some l \<and>
        (Address.StreetAddress (heap w l) = [] \<or> Address.State (heap w l) = [] \<or>
         length (Address.State (heap w l)) \<noteq> 2))) \<longrightarrow>
      (\<exists>err. fst (ValidateAddress e address w) = Inl err) \<and>
      snd (ValidateAddress e address w) = w \<and>
      network_calls (snd (ValidateAddress e address w)) = network_calls w) \<and>
   (\<forall>l. address = Some l \<and> Address.StreetAddress (heap w l) \<noteq> [] \<and>
        length (Address.State (heap w l)) = 2 \<longrightarrow>
      (\<exists>params. address_params e w l = Inr params \<and>
         GetAddressParams.State params = strings_ToUpper e (Address.State (heap w l))) \<and>
      (\<forall>q a. EvAddressGet q a \<in>
           set (drop (length (trace w)) (trace (snd (ValidateAddress e address w)))) \<longrightarrow>
         query.State q = strings_ToUpper e (Address.State (heap w l))))"
proof (intro conjI impI allI)
  assume "address = None \<or>
     (\<exists>l. address = Some l \<and>
        (Address.StreetAddress (heap w l) = [] \<or> Address.State (heap w l) = [] \<or>
         length (Address.State (heap w l)) \<noteq> 2))"
  then have "\<exists>err. ValidateAddress e address w = (Inl err, w)"
    by (auto simp: ValidateAddress_def address_params_def Let_def)
  then show "\<exists>err. fst (ValidateAddress e address w) = Inl err"
    "snd (ValidateAddress e address w) = w"
    "network_calls (snd (ValidateAddress e address w)) = network_calls w"
    by auto
next
  fix l
  assume a: "address = Some l \<and> Address.StreetAddress (heap w l) \<noteq> [] \<and>
        length (Address.State (heap w l)) = 2"
  then obtain params where p: "address_params e w l = Inr params"
    by (cases "address_params e w l") (auto simp: address_params_Inl)
  have st: "GetAddressParams.State params = strings_ToUpper e (Address.State (heap w l))"
    using address_params_Inr(3) [OF p] by simp
  from p st show "\<exists>params. address_params e w l = Inr params \<and>
         GetAddressParams.State params = strings_ToUpper e (Address.State (heap w l))"
    by blast
  fix q a'
  assume ev: "EvAddressGet q a' \<in>
           set (drop (length (trace w)) (trace (snd (ValidateAddress e address w))))"
  obtain es where es: "trace (snd (ValidateAddress e (Some l) w)) = trace w @ es"
    "\<forall>ev \<in> set es. is_address_get ev \<longrightarrow>
        (\<exists>a. ev = EvAddressGet (params_query (heap w) params) a)"
    using p by (rule ValidateAddress_frame)
  from ev a es have "q = params_query (heap w) params"
    by (auto simp: is_address_get_def)
  with st show "query.State q = strings_ToUpper e (Address.State (heap w l))"
    by (simp add: params_query_def)
qed

theorem ValidateAddress_preconditions_witness:
  "length (Address.State (heap ex_bad_state_world 0)) \<noteq> 2 \<and>
   ValidateAddress ex_env (Some 0) ex_bad_state_world = (Inl ErrStateRequired, ex_bad_state_world) \<and>
   ValidateAddress ex_env None ex_world = (Inl ErrAddressNil, ex_world) \<and>
   Address.StreetAddress (heap ex_world 0) \<noteq> [] \<and>
   length (Address.State (heap ex_world 0)) = 2 \<and>
   EvAddressGet ex_query ''Bearer tok1'' \<in>
     set (drop (length (trace ex_world)) (trace (snd (ValidateAddress ex_env (Some 0) ex_world)))) \<and>
   query.State ex_query = strings_ToUpper ex_env (Address.State (heap ex_world 0)) \<and>
   query.State ex_query = ''DC''"
  using ValidateAddress_preconditions [of "Some 0" ex_bad_state_world ex_env]
    ValidateAddress_preconditions [of "Some 0" ex_world ex_env]
  by (simp add: ex_ValidateAddress_trace)
    (simp add: ValidateAddress_def address_params_def ex_bad_state_world_def ex_world_def
       ex_env_def ex_address_def ex_query_def ascii_upper_def Let_def)

text \<open>
  The claim C5 as first stated, with a state that is not exactly two characters long, fails
  for a state of one character that takes two bytes: for U+00E9 line 88 finds the length
  2, no error is returned, and the call sends the token request and the GET.
\<close>

theorem ValidateAddress_preconditions_counterexample:
  "character_count (Address.State (heap ex_eacute_world 0)) = 1 \<and>
   length (Address.State (heap ex_eacute_world 0)) = 2 \<and>
   fst (ValidateAddress ex_unicode_env (Some 0) ex_eacute_world) =
     Inr [convertResponse ex_AddressResponse] \<and>
   network_calls ex_eacute_world = 0 \<and>
   network_calls (snd (ValidateAddress ex_unicode_env (Some 0) ex_eacute_world)) = 2"
  by (simp add: character_count_def eacute_def ex_eacute_world_def ex_unicode_env_def
        client_model_defs token_model_defs ex_defs ex_address_def ex_GetAddressResponse_def
        network_calls_def is_network_def Let_def)

text \<open>
  Claim C6. In every GET that \<open>ValidateAddress\<close> sends, each of the optional fields
  (secondary address, city, ZIP code, firm, urbanization) is present exactly when the
  field of the input address is not empty, with the input's value; none is sent as an
  empty string.
\<close>

theorem ValidateAddress_optional_fields:
  "(\<forall>l params. address_params e w l = Inr params \<longrightarrow>
      (GetAddressParams.SecondaryAddress params \<noteq> None \<longleftrightarrow>
         Address.SecondaryAddress (heap w l) \<noteq> []) \<and>
      (GetAddressParams.City params \<noteq> None \<longleftrightarrow> Address.City (heap w l) \<noteq> []) \<and>
      (GetAddressParams.ZIPCode params \<noteq> None \<longleftrightarrow> Address.ZIPCode (heap w l) \<noteq> []) \<and>
      (GetAddressParams.Firm params \<noteq> None \<longleftrightarrow> Address.Firm (heap w l) \<noteq> []) \<and>
      (GetAddressParams.Urbanization params \<noteq> None \<longleftrightarrow>
         Address.Urbanization (heap w l) \<noteq> [])) \<and>
   (\<forall>q a. EvAddressGet q a \<in>
        set (drop (length (trace w)) (trace (snd (ValidateAddress e address w)))) \<longrightarrow>
      (\<exists>l. address = Some l \<and>
         query.SecondaryAddress q =
           (if Address.SecondaryAddress (heap w l) = [] then None
            else Some (Address.SecondaryAddress (heap w l))) \<and>
         query.City q =
           (if Address.City (heap w l) = [] then None else Some (Address.City (heap w l))) \<and>
         query.ZIPCode q =
           (if Address.ZIPCode (heap w l) = [] then None
            else Some (Address.ZIPCode (heap w l))) \<and>
         query.Firm q =
           (if Address.Firm (heap w l) = [] then None else Some (Address.Firm (heap w l))) \<and>
         query.Urbanization q =
           (if Address.Urbanization (heap w l) = [] then None
            else Some (Address.Urbanization (heap w l)))) \<and>
      query.SecondaryAddress q \<noteq> Some [] \<and> query.City q \<noteq> Some [] \<and>
      query.ZIPCode q \<noteq> Some [] \<and> query.Firm q \<noteq> Some [] \<and>
      query.Urbanization q \<noteq> Some [])"
proof (intro conjI allI impI)
  fix l params
  assume "address_params e w l = Inr params"
  then have p: "params =
      \<lparr>GetAddressParams.StreetAddress = Address.StreetAddress (heap w l),
       GetAddressParams.State = strings_ToUpper e (Address.State (heap w l)),
       GetAddressParams.SecondaryAddress =
         (if Address.SecondaryAddress (heap w l) = [] then None else Some (l, FSecondaryAddress)),
       GetAddressParams.City = (if Address.City (heap w l) = [] then None else Some (l, FCity)),
       GetAddressParams.ZIPCode =
         (if Address.ZIPCode (heap w l) = [] then None else Some (l, FZIPCode)),
       GetAddressParams.Firm = (if Address.Firm (heap w l) = [] then None else Some (l, FFirm)),
       GetAddressParams.Urbanization =
         (if Address.Urbanization (heap w l) = [] then None else Some (l, FUrbanization))\<rparr>"
    by (rule address_params_Inr(3))
  show "GetAddressParams.SecondaryAddress params \<noteq> None \<longleftrightarrow>
         Address.SecondaryAddress (heap w l) \<noteq> []"
    and "GetAddressParams.City params \<noteq> None \<longleftrightarrow> Address.City (heap w l) \<noteq> []"
    and "GetAddressParams.ZIPCode params \<noteq> None \<longleftrightarrow> Address.ZIPCode (heap w l) \<noteq> []"
    and "GetAddressParams.Firm params \<noteq> None \<longleftrightarrow> Address.Firm (heap w l) \<noteq> []"
    and "GetAddressParams.Urbanization params \<noteq> None \<longleftrightarrow>
         Address.Urbanization (heap w l) \<noteq> []"
    by (subst p, simp)+
next
  fix q a
  assume ev: "EvAddressGet q a \<in>
        set (drop (length (trace w)) (trace (snd (ValidateAddress e address w))))"
  have sent: "\<exists>l. address = Some l \<and>
         query.SecondaryAddress q =
           (if Address.SecondaryAddress (heap w l) = [] then None
            else Some (Address.SecondaryAddress (heap w l))) \<and>
         query.City q =
           (if Address.City (heap w l) = [] then None else Some (Address.City (heap w l))) \<and>
         query.ZIPCode q =
           (if Address.ZIPCode (heap w l) = [] then None
            else Some (Address.ZIPCode (heap w l))) \<and>
         query.Firm q =
           (if Address.Firm (heap w l) = [] then None else Some (Address.Firm (heap w l))) \<and>
         query.Urbanization q =
           (if Address.Urbanization (heap w l) = [] then None
            else Some (Address.Urbanization (heap w l)))"
  proof (cases address)
    case None
    with ev show ?thesis by (simp add: ValidateAddress_def)
  next
    case (Some l)
    show ?thesis
    proof (cases "address_params e w l")
      case (Inl err)
      with Some ev show ?thesis by (simp add: ValidateAddress_def)
    next
      case (Inr params)
      obtain es where es: "trace (snd (ValidateAddress e (Some l) w)) = trace w @ es"
        "\<forall>ev \<in> set es. is_address_get ev \<longrightarrow>
            (\<exists>a. ev = EvAddressGet (params_query (heap w) params) a)"
        using Inr by (rule ValidateAddress_frame)
      from ev Some es have q: "q = params_query (heap w) params"
        by (auto simp: is_address_get_def)
      have "query.SecondaryAddress q =
           (if Address.SecondaryAddress (heap w l) = [] then None
            else Some (Address.SecondaryAddress (heap w l)))"
        and "query.City q =
           (if Address.City (heap w l) = [] then None else Some (Address.City (heap w l)))"
        and "query.ZIPCode q =
           (if Address.ZIPCode (heap w l) = [] then None
            else Some (Address.ZIPCode (heap w l)))"
        and "query.Firm q =
           (if Address.Firm (heap w l) = [] then None else Some (Address.Firm (heap w l)))"
        and "query.Urbanization q =
           (if Address.Urbanization (heap w l) = [] then None
            else Some (Address.Urbanization (heap w l)))"
        unfolding q
        by (subst address_params_Inr(3) [OF Inr], simp add: params_query_def load_def)+
      with Some show ?thesis by simp
    qed
  qed
  from sent show "\<exists>l. address = Some l \<and>
         query.SecondaryAddress q =
           (if Address.SecondaryAddress (heap w l) = [] then None
            else Some (Address.SecondaryAddress (heap w l))) \<and>
         query.City q =
           (if Address.City (heap w l) = [] then None else Some (Address.City (heap w l))) \<and>
         query.ZIPCode q =
           (if Address.ZIPCode (heap w l) = [] then None
            else Some (Address.ZIPCode (heap w l))) \<and>
         query.Firm q =
           (if Address.Firm (heap w l) = [] then None else Some (Address.Firm (heap w l))) \<and>
         query.Urbanization q =
           (if Address.Urbanization (heap w l) = [] then None
            else Some (Address.Urbanization (heap w l)))" .
  from sent show "query.SecondaryAddress q \<noteq> Some []" by (auto split: if_splits)
  from sent show "query.City q \<noteq> Some []" by (auto split: if_splits)
  from sent show "query.ZIPCode q \<noteq> Some []" by (auto split: if_splits)
  from sent show "query.Firm q \<noteq> Some []" by (auto split: if_splits)
  from sent show "query.Urbanization q \<noteq> Some []" by (auto split: if_splits)
qed

theorem ValidateAddress_optional_fields_witness:
  "address_params ex_env ex_world 0 =
     Inr \<lparr>GetAddressParams.StreetAddress = ''1600 Pennsylvania Ave NW'',
          GetAddressParams.State = ''DC'', GetAddressParams.SecondaryAddress = None,
          GetAddressParams.City = Some (0, FCity), GetAddressParams.ZIPCode = None,
          GetAddressParams.Firm = None, GetAddressParams.Urbanization = None\<rparr> \<and>
   EvAddressGet ex_query ''Bearer tok1'' \<in>
     set (drop (length (trace ex_world)) (trace (snd (ValidateAddress ex_env (Some 0) ex_world)))) \<and>
   Address.City (heap ex_world 0) = ''Washington'' \<and> query.City ex_query = Some ''Washington'' \<and>
   Address.ZIPCode (heap ex_world 0) = [] \<and> query.ZIPCode ex_query = None"
  using ValidateAddress_optional_fields [of ex_env ex_world "Some 0"]
  by (simp add: ex_ValidateAddress_trace)
    (simp add: ex_world_def ex_env_def ex_address_def ex_query_def address_params_def
       zero_GetAddressParams_def ascii_upper_def Let_def)

text \<open>
  Claim C9. \<open>ValidateAddress\<close> leaves the store of the caller's addresses as it was, on
  every path: whether it returns a result or an error, every field of the input address
  has its value of before the call.
\<close>

theorem ValidateAddress_keeps_address:
  "heap (snd (ValidateAddress e address w)) = heap w"
proof (cases address)
  case None
  then show ?thesis by (simp add: ValidateAddress_def)
next
  case (Some l)
  show ?thesis
  proof (cases "address_params e w l")
    case (Inl err)
    with Some show ?thesis by (simp add: ValidateAddress_def)
  next
    case (Inr params)
    have "heap (snd (GetAddressWithResponse e params w)) = heap w"
      by (rule GetAddressWithResponse_frame [of e params w])
    moreover have "snd (ValidateAddress e (Some l) w) = snd (GetAddressWithResponse e params w)"
      using Inr by (simp add: ValidateAddress_def split: prod.splits sum.splits)
    ultimately show ?thesis using Some by simp
  qed
qed

theorem ValidateAddress_keeps_address_witness:
  "heap (snd (ValidateAddress ex_env (Some 0) ex_world)) 0 = ex_address \<and>
   heap (snd (ValidateAddress ex_env (Some 0) ex_bad_state_world)) 0 =
     ex_address\<lparr>Address.State := ''D.C.''\<rparr> \<and>
   (\<exists>r. fst (ValidateAddress ex_env (Some 0) ex_world) = Inr r) \<and>
   fst (ValidateAddress ex_env (Some 0) ex_bad_state_world) = Inl ErrStateRequired"
  using ValidateAddress_keeps_address [of ex_env "Some 0" ex_world]
    ValidateAddress_keeps_address [of ex_env "Some 0" ex_bad_state_world]
  by (simp add: ex_world_def ex_bad_state_world_def)
    (simp add: client_model_defs token_model_defs ex_defs ex_address_def
       ex_GetAddressResponse_def ascii_upper_def Let_def)

end
